theory Spec2Isabelle
  imports Main "HOL-Library.Word"
begin

unbundle bit_operations_syntax

section \<open>Register map and bit-field constants (ITG3200.h)\<close>

type_synonym byte = "8 word"

named_theorems itg_const \<open>values of the header's macros\<close>

definition ITG3200_ADDRESS_WRITE :: byte where
  [itg_const]: "ITG3200_ADDRESS_WRITE = 0xD0"
definition ITG3200_ADDRESS_READ :: byte where
  [itg_const]: "ITG3200_ADDRESS_READ = 0xD1"

definition ITG3200_RA_WHO_AM_I :: byte where
  [itg_const]: "ITG3200_RA_WHO_AM_I = 0x00"
definition ITG3200_RA_SMPLRT_DIV :: byte where
  [itg_const]: "ITG3200_RA_SMPLRT_DIV = 0x15"
definition ITG3200_RA_DLPF_FS :: byte where
  [itg_const]: "ITG3200_RA_DLPF_FS = 0x16"
definition ITG3200_RA_INT_CFG :: byte where
  [itg_const]: "ITG3200_RA_INT_CFG = 0x17"
definition ITG3200_RA_INT_STATUS :: byte where
  [itg_const]: "ITG3200_RA_INT_STATUS = 0x1A"
definition ITG3200_RA_TEMP_OUT_H :: byte where
  [itg_const]: "ITG3200_RA_TEMP_OUT_H = 0x1B"
definition ITG3200_RA_TEMP_OUT_L :: byte where
  [itg_const]: "ITG3200_RA_TEMP_OUT_L = 0x1C"
definition ITG3200_RA_GYRO_XOUT_H :: byte where
  [itg_const]: "ITG3200_RA_GYRO_XOUT_H = 0x1D"
definition ITG3200_RA_GYRO_XOUT_L :: byte where
  [itg_const]: "ITG3200_RA_GYRO_XOUT_L = 0x1E"
definition ITG3200_RA_GYRO_YOUT_H :: byte where
  [itg_const]: "ITG3200_RA_GYRO_YOUT_H = 0x1F"
definition ITG3200_RA_GYRO_YOUT_L :: byte where
  [itg_const]: "ITG3200_RA_GYRO_YOUT_L = 0x20"
definition ITG3200_RA_GYRO_ZOUT_H :: byte where
  [itg_const]: "ITG3200_RA_GYRO_ZOUT_H = 0x21"
definition ITG3200_RA_GYRO_ZOUT_L :: byte where
  [itg_const]: "ITG3200_RA_GYRO_ZOUT_L = 0x22"
definition ITG3200_RA_PWR_MGM :: byte where
  [itg_const]: "ITG3200_RA_PWR_MGM = 0x3E"

definition ITG3200_DEVID_BIT :: nat where
  [itg_const]: "ITG3200_DEVID_BIT = 6"
definition ITG3200_DEVID_LENGTH :: nat where
  [itg_const]: "ITG3200_DEVID_LENGTH = 6"

definition ITG3200_DF_FS_SEL_BIT :: nat where
  [itg_const]: "ITG3200_DF_FS_SEL_BIT = 4"
definition ITG3200_DF_FS_SEL_LENGTH :: nat where
  [itg_const]: "ITG3200_DF_FS_SEL_LENGTH = 2"
definition ITG3200_DF_DLPF_CFG_BIT :: nat where
  [itg_const]: "ITG3200_DF_DLPF_CFG_BIT = 2"
definition ITG3200_DF_DLPF_CFG_LENGTH :: nat where
  [itg_const]: "ITG3200_DF_DLPF_CFG_LENGTH = 3"

definition ITG3200_FULLSCALE_2000 :: byte where
  [itg_const]: "ITG3200_FULLSCALE_2000 = 0x03"

definition ITG3200_INTCFG_ACTL_BIT :: nat where
  [itg_const]: "ITG3200_INTCFG_ACTL_BIT = 7"
definition ITG3200_INTCFG_OPEN_BIT :: nat where
  [itg_const]: "ITG3200_INTCFG_OPEN_BIT = 6"
definition ITG3200_INTCFG_LATCH_INT_EN_BIT :: nat where
  [itg_const]: "ITG3200_INTCFG_LATCH_INT_EN_BIT = 5"
definition ITG3200_INTCFG_INT_ANYRD_2CLEAR_BIT :: nat where
  [itg_const]: "ITG3200_INTCFG_INT_ANYRD_2CLEAR_BIT = 4"
definition ITG3200_INTCFG_ITG_RDY_EN_BIT :: nat where
  [itg_const]: "ITG3200_INTCFG_ITG_RDY_EN_BIT = 2"
definition ITG3200_INTCFG_RAW_RDY_EN_BIT :: nat where
  [itg_const]: "ITG3200_INTCFG_RAW_RDY_EN_BIT = 0"

definition ITG3200_INTSTAT_ITG_RDY_BIT :: nat where
  [itg_const]: "ITG3200_INTSTAT_ITG_RDY_BIT = 2"
definition ITG3200_INTSTAT_RAW_DATA_READY_BIT :: nat where
  [itg_const]: "ITG3200_INTSTAT_RAW_DATA_READY_BIT = 0"

definition ITG3200_PWR_H_RESET_BIT :: nat where
  [itg_const]: "ITG3200_PWR_H_RESET_BIT = 7"
definition ITG3200_PWR_SLEEP_BIT :: nat where
  [itg_const]: "ITG3200_PWR_SLEEP_BIT = 6"
definition ITG3200_PWR_STBY_XG_BIT :: nat where
  [itg_const]: "ITG3200_PWR_STBY_XG_BIT = 5"
definition ITG3200_PWR_STBY_YG_BIT :: nat where
  [itg_const]: "ITG3200_PWR_STBY_YG_BIT = 4"
definition ITG3200_PWR_STBY_ZG_BIT :: nat where
  [itg_const]: "ITG3200_PWR_STBY_ZG_BIT = 3"
definition ITG3200_PWR_CLK_SEL_BIT :: nat where
  [itg_const]: "ITG3200_PWR_CLK_SEL_BIT = 2"
definition ITG3200_PWR_CLK_SEL_LENGTH :: nat where
  [itg_const]: "ITG3200_PWR_CLK_SEL_LENGTH = 3"

definition ITG3200_CLOCK_INTERNAL :: byte where
  [itg_const]: "ITG3200_CLOCK_INTERNAL = 0x00"
definition ITG3200_CLOCK_PLL_XGYRO :: byte where
  [itg_const]: "ITG3200_CLOCK_PLL_XGYRO = 0x01"

section \<open>The bus and the device's register file\<close>

text \<open>
  The bus transport is external to the driver. It is modelled as a register file with a
  trace of the transactions issued and a schedule of injected faults: each transaction
  consumes the head of \<open>faults\<close> and fails when it is \<open>True\<close>; with an empty schedule
  every transaction succeeds. The driver's only own state is the global scratch array
  \<open>ITG3200Buffer\<close> (six bytes in the source).
\<close>

datatype bus_error = BusTransactionFailure

datatype txn =
    TxReadByte byte
  | TxWriteByte byte byte
  | TxReadBytes byte nat

record machine =
  regs :: "byte \<Rightarrow> byte"
  faults :: "bool list"
  trace :: "txn list"
  ITG3200Buffer :: "byte list"

definition next_fails :: "machine \<Rightarrow> bool" where
  "next_fails s = (case faults s of [] \<Rightarrow> False | f # _ \<Rightarrow> f)"

definition issue :: "txn \<Rightarrow> machine \<Rightarrow> machine" where
  "issue t s = s\<lparr>faults := tl (faults s), trace := trace s @ [t]\<rparr>"

text \<open>Modelled from the spec: the transport primitive \<open>readByte\<close> of section 6, which
  the repository does not contain.\<close>
definition bus_readByte :: "byte \<Rightarrow> machine \<Rightarrow> (bus_error + byte) \<times> machine" where
  "bus_readByte reg s =
     (if next_fails s then (Inl BusTransactionFailure, issue (TxReadByte reg) s)
      else (Inr (regs s reg), issue (TxReadByte reg) s))"

text \<open>Modelled from the spec: the transport primitive \<open>writeByte\<close> of section 6. A failed
  write stores nothing.\<close>
definition bus_writeByte :: "byte \<Rightarrow> byte \<Rightarrow> machine \<Rightarrow> (bus_error + unit) \<times> machine" where
  "bus_writeByte reg v s =
     (if next_fails s then (Inl BusTransactionFailure, issue (TxWriteByte reg v) s)
      else (Inr (), (issue (TxWriteByte reg v) s)\<lparr>regs := (regs s)(reg := v)\<rparr>))"

text \<open>Modelled from the spec: the transport primitive \<open>readBytes\<close> of section 6: one
  transaction returning \<open>count\<close> consecutive registers in register order, or failing as a
  whole.\<close>
definition bus_readBytes :: "byte \<Rightarrow> nat \<Rightarrow> machine \<Rightarrow> (bus_error + byte list) \<times> machine" where
  "bus_readBytes reg count s =
     (if next_fails s then (Inl BusTransactionFailure, issue (TxReadBytes reg count) s)
      else (Inr (map (\<lambda>i. regs s (reg + of_nat i)) [0..<count]),
            issue (TxReadBytes reg count) s))"

section \<open>Bitfield accessor\<close>

text \<open>Modelled from the spec: \<open>I2CDeviceReadByte\<close>, declared in a header that is not part
  of the sources at hand; a single-byte read of the register.\<close>
definition I2CDeviceReadByte :: "byte \<Rightarrow> machine \<Rightarrow> (bus_error + byte) \<times> machine" where
  "I2CDeviceReadByte reg s = bus_readByte reg s"

text \<open>Modelled from the spec: \<open>I2CDeviceWriteByte\<close>, a single-byte write of the
  register.\<close>
definition I2CDeviceWriteByte :: "byte \<Rightarrow> byte \<Rightarrow> machine \<Rightarrow> (bus_error + unit) \<times> machine" where
  "I2CDeviceWriteByte reg v s = bus_writeByte reg v s"

text \<open>Modelled from the spec: \<open>readBit\<close> of section 4.1: a single-byte read, then whether
  the bit at \<open>bitNum\<close> (0 the least significant) is set.\<close>
definition I2CDeviceReadBit :: "byte \<Rightarrow> nat \<Rightarrow> machine \<Rightarrow> (bus_error + bool) \<times> machine" where
  "I2CDeviceReadBit reg bitNum s =
     (case bus_readByte reg s of
        (Inl e, s') \<Rightarrow> (Inl e, s')
      | (Inr b, s') \<Rightarrow> (Inr (b AND push_bit bitNum 1 \<noteq> 0), s'))"

text \<open>The field \<open>(bitStart, length)\<close> names its most significant bit: it covers the bits
  \<open>bitStart\<close> down to \<open>bitStart - length + 1\<close>, which is the amount to shift by.\<close>
definition field_shift :: "nat \<Rightarrow> nat \<Rightarrow> nat" where
  "field_shift bitStart len = Suc bitStart - len"

definition field_mask :: "nat \<Rightarrow> nat \<Rightarrow> byte" where
  "field_mask bitStart len = push_bit (field_shift bitStart len) (2 ^ len - 1)"

text \<open>Modelled from the spec: \<open>readBits\<close> of section 4.1: reads the byte, shifts right and
  masks to \<open>length\<close> bits, the field right-aligned.\<close>
definition I2CDeviceReadBits ::
  "byte \<Rightarrow> nat \<Rightarrow> nat \<Rightarrow> machine \<Rightarrow> (bus_error + byte) \<times> machine" where
  "I2CDeviceReadBits reg bitStart len s =
     (case bus_readByte reg s of
        (Inl e, s') \<Rightarrow> (Inl e, s')
      | (Inr b, s') \<Rightarrow> (Inr (drop_bit (field_shift bitStart len) b AND (2 ^ len - 1)), s'))"

text \<open>Modelled from the spec: \<open>writeBit\<close> of section 4.1: read-modify-write; when the
  read fails the write is not attempted.\<close>
definition I2CDeviceWriteBit ::
  "byte \<Rightarrow> nat \<Rightarrow> bool \<Rightarrow> machine \<Rightarrow> (bus_error + unit) \<times> machine" where
  "I2CDeviceWriteBit reg bitNum v s =
     (case bus_readByte reg s of
        (Inl e, s') \<Rightarrow> (Inl e, s')
      | (Inr b, s') \<Rightarrow>
          bus_writeByte reg
            (if v then b OR push_bit bitNum 1 else b AND NOT (push_bit bitNum 1)) s')"

text \<open>Modelled from the spec: \<open>writeBits\<close> of section 4.1: computes the mask of the
  field's span, clears those bits of the current byte, ORs in the value shifted into
  position and masked, and writes the byte back.\<close>
definition I2CDeviceWriteBits ::
  "byte \<Rightarrow> nat \<Rightarrow> nat \<Rightarrow> byte \<Rightarrow> machine \<Rightarrow> (bus_error + unit) \<times> machine" where
  "I2CDeviceWriteBits reg bitStart len v s =
     (case bus_readByte reg s of
        (Inl e, s') \<Rightarrow> (Inl e, s')
      | (Inr b, s') \<Rightarrow>
          bus_writeByte reg
            ((b AND NOT (field_mask bitStart len))
               OR (push_bit (field_shift bitStart len) v AND field_mask bitStart len)) s')"

text \<open>Modelled from the spec: \<open>readBytes\<close> of section 4.1, with the call shape of the
  source (\<open>I2CDeviceReadBytes(reg, count, buffer)\<close>): one burst transaction whose bytes
  overwrite the first \<open>count\<close> entries of the caller's buffer; a failed burst leaves the
  buffer as it was. The buffer is passed in and handed back.\<close>
definition I2CDeviceReadBytes ::
  "byte \<Rightarrow> nat \<Rightarrow> byte list \<Rightarrow> machine \<Rightarrow> (bus_error + unit) \<times> byte list \<times> machine" where
  "I2CDeviceReadBytes reg count data s =
     (case bus_readBytes reg count s of
        (Inl e, s') \<Rightarrow> (Inl e, data, s')
      | (Inr bytes, s') \<Rightarrow> (Inr (), bytes @ drop count data, s'))"

section \<open>Device driver (ITG3200.c)\<close>

text \<open>
  Each function of the driver is one call of the accessor on fixed constants. A getter that
  ends in \<open>return I2CDevice...(...)\<close> returns what the accessor returns (the header
  declares it \<open>unsigned char\<close> or \<open>bool\<close>; how a failure would be carried in such a value
  belongs to the accessor, and nothing below relies on it). A setter is \<open>void\<close> and drops
  the accessor's result, so it yields the new machine state only. The burst reads drop the
  accessor's result as well and decode the global buffer.

  The functions returning \<open>int\<close> compute \<open>(((int) buffer[0]) << 8) | buffer[1]\<close>: the byte
  is widened to \<open>int\<close> without sign, shifted, and ORed with the second byte widened
  likewise. Nothing in the sources fixes the width of \<open>int\<close>, so it is the type
  parameter \<open>'i\<close> of these functions, and \<open>int\<close> is \<open>'i word\<close> read with \<open>sint\<close>. C
  guarantees at least 16 bits. Above 16 bits the shift cannot overflow. At exactly 16
  bits a first byte of 0x80 or more is shifted into the sign bit, which C leaves
  undefined; the word model wraps there.
\<close>

definition ITG3200GetDeviceID :: "machine \<Rightarrow> (bus_error + byte) \<times> machine" where
  "ITG3200GetDeviceID s = I2CDeviceReadBits ITG3200_RA_WHO_AM_I ITG3200_DEVID_BIT ITG3200_DEVID_LENGTH s"

definition ITG3200SetDeviceID :: "byte \<Rightarrow> machine \<Rightarrow> machine" where
  "ITG3200SetDeviceID ident s = snd (I2CDeviceWriteBits ITG3200_RA_WHO_AM_I ITG3200_DEVID_BIT ITG3200_DEVID_LENGTH ident s)"

definition ITG3200GetRate :: "machine \<Rightarrow> (bus_error + byte) \<times> machine" where
  "ITG3200GetRate s = I2CDeviceReadByte ITG3200_RA_SMPLRT_DIV s"

definition ITG3200SetRate :: "byte \<Rightarrow> machine \<Rightarrow> machine" where
  "ITG3200SetRate rate s = snd (I2CDeviceWriteByte ITG3200_RA_SMPLRT_DIV rate s)"

definition ITG3200GetFullScaleRange :: "machine \<Rightarrow> (bus_error + byte) \<times> machine" where
  "ITG3200GetFullScaleRange s = I2CDeviceReadBits ITG3200_RA_DLPF_FS ITG3200_DF_FS_SEL_BIT ITG3200_DF_FS_SEL_LENGTH s"

definition ITG3200SetFullScaleRange :: "byte \<Rightarrow> machine \<Rightarrow> machine" where
  "ITG3200SetFullScaleRange rng s = snd (I2CDeviceWriteBits ITG3200_RA_DLPF_FS ITG3200_DF_FS_SEL_BIT ITG3200_DF_FS_SEL_LENGTH rng s)"

definition ITG3200GetDLPFBandwidth :: "machine \<Rightarrow> (bus_error + byte) \<times> machine" where
  "ITG3200GetDLPFBandwidth s = I2CDeviceReadBits ITG3200_RA_DLPF_FS ITG3200_DF_DLPF_CFG_BIT ITG3200_DF_DLPF_CFG_LENGTH s"

definition ITG3200SetDLPFBandwidth :: "byte \<Rightarrow> machine \<Rightarrow> machine" where
  "ITG3200SetDLPFBandwidth bandwidth s = snd (I2CDeviceWriteBits ITG3200_RA_DLPF_FS ITG3200_DF_DLPF_CFG_BIT ITG3200_DF_DLPF_CFG_LENGTH bandwidth s)"

definition ITG3200GetInterruptMode :: "machine \<Rightarrow> (bus_error + bool) \<times> machine" where
  "ITG3200GetInterruptMode s = I2CDeviceReadBit ITG3200_RA_INT_CFG ITG3200_INTCFG_ACTL_BIT s"

definition ITG3200SetInterruptMode :: "bool \<Rightarrow> machine \<Rightarrow> machine" where
  "ITG3200SetInterruptMode mode s = snd (I2CDeviceWriteBit ITG3200_RA_INT_CFG ITG3200_INTCFG_ACTL_BIT mode s)"

definition ITG3200getInterruptDrive :: "machine \<Rightarrow> (bus_error + bool) \<times> machine" where
  "ITG3200getInterruptDrive s = I2CDeviceReadBit ITG3200_RA_INT_CFG ITG3200_INTCFG_OPEN_BIT s"

definition ITG3200SetInterruptDrive :: "bool \<Rightarrow> machine \<Rightarrow> machine" where
  "ITG3200SetInterruptDrive drive s = snd (I2CDeviceWriteBit ITG3200_RA_INT_CFG ITG3200_INTCFG_OPEN_BIT drive s)"

definition ITG3200GetInterruptLatch :: "machine \<Rightarrow> (bus_error + bool) \<times> machine" where
  "ITG3200GetInterruptLatch s = I2CDeviceReadBit ITG3200_RA_INT_CFG ITG3200_INTCFG_LATCH_INT_EN_BIT s"

definition ITG3200SetInterruptLatch :: "bool \<Rightarrow> machine \<Rightarrow> machine" where
  "ITG3200SetInterruptLatch latch s = snd (I2CDeviceWriteBit ITG3200_RA_INT_CFG ITG3200_INTCFG_LATCH_INT_EN_BIT latch s)"

definition ITG3200GetInterruptLatchClear :: "machine \<Rightarrow> (bus_error + bool) \<times> machine" where
  "ITG3200GetInterruptLatchClear s = I2CDeviceReadBit ITG3200_RA_INT_CFG ITG3200_INTCFG_INT_ANYRD_2CLEAR_BIT s"

definition ITG3200SetInterruptLatchClear :: "bool \<Rightarrow> machine \<Rightarrow> machine" where
  "ITG3200SetInterruptLatchClear clear s = snd (I2CDeviceWriteBit ITG3200_RA_INT_CFG ITG3200_INTCFG_INT_ANYRD_2CLEAR_BIT clear s)"

definition ITG3200GetIntDeviceReadyEnabled :: "machine \<Rightarrow> (bus_error + bool) \<times> machine" where
  "ITG3200GetIntDeviceReadyEnabled s = I2CDeviceReadBit ITG3200_RA_INT_CFG ITG3200_INTCFG_ITG_RDY_EN_BIT s"

definition ITG3200SetIntDeviceReadyEnabled :: "bool \<Rightarrow> machine \<Rightarrow> machine" where
  "ITG3200SetIntDeviceReadyEnabled enabled s = snd (I2CDeviceWriteBit ITG3200_RA_INT_CFG ITG3200_INTCFG_ITG_RDY_EN_BIT enabled s)"

definition ITG3200GetIntDataReadyEnabled :: "machine \<Rightarrow> (bus_error + bool) \<times> machine" where
  "ITG3200GetIntDataReadyEnabled s = I2CDeviceReadBit ITG3200_RA_INT_CFG ITG3200_INTCFG_RAW_RDY_EN_BIT s"

definition ITG3200SetIntDataReadyEnabled :: "bool \<Rightarrow> machine \<Rightarrow> machine" where
  "ITG3200SetIntDataReadyEnabled enabled s = snd (I2CDeviceWriteBit ITG3200_RA_INT_CFG ITG3200_INTCFG_RAW_RDY_EN_BIT enabled s)"

definition ITG3200GetIntDeviceReadyStatus :: "machine \<Rightarrow> (bus_error + bool) \<times> machine" where
  "ITG3200GetIntDeviceReadyStatus s = I2CDeviceReadBit ITG3200_RA_INT_STATUS ITG3200_INTSTAT_ITG_RDY_BIT s"

definition ITG3200GetIntDataReadyStatus :: "machine \<Rightarrow> (bus_error + bool) \<times> machine" where
  "ITG3200GetIntDataReadyStatus s = I2CDeviceReadBit ITG3200_RA_INT_STATUS ITG3200_INTSTAT_RAW_DATA_READY_BIT s"

definition ITG3200GetTemperature :: "machine \<Rightarrow> 'i::len word \<times> machine" where
  "ITG3200GetTemperature s =
     (case I2CDeviceReadBytes ITG3200_RA_TEMP_OUT_H 2 (ITG3200Buffer s) s of
        (r, data, s') \<Rightarrow>
          (push_bit 8 (ucast (data ! 0)) OR ucast (data ! 1), s'\<lparr>ITG3200Buffer := data\<rparr>))"

definition ITG3200GetRotation ::
  "machine \<Rightarrow> ('i::len word \<times> 'i word \<times> 'i word) \<times> machine" where
  "ITG3200GetRotation s =
     (case I2CDeviceReadBytes ITG3200_RA_GYRO_XOUT_H 6 (ITG3200Buffer s) s of
        (r, data, s') \<Rightarrow>
          ((push_bit 8 (ucast (data ! 0)) OR ucast (data ! 1),
            push_bit 8 (ucast (data ! 2)) OR ucast (data ! 3),
            push_bit 8 (ucast (data ! 4)) OR ucast (data ! 5)),
           s'\<lparr>ITG3200Buffer := data\<rparr>))"

definition ITG3200GetRotationX :: "machine \<Rightarrow> 'i::len word \<times> machine" where
  "ITG3200GetRotationX s =
     (case I2CDeviceReadBytes ITG3200_RA_GYRO_XOUT_H 2 (ITG3200Buffer s) s of
        (r, data, s') \<Rightarrow>
          (push_bit 8 (ucast (data ! 0)) OR ucast (data ! 1), s'\<lparr>ITG3200Buffer := data\<rparr>))"

definition ITG3200GetRotationY :: "machine \<Rightarrow> 'i::len word \<times> machine" where
  "ITG3200GetRotationY s =
     (case I2CDeviceReadBytes ITG3200_RA_GYRO_YOUT_H 2 (ITG3200Buffer s) s of
        (r, data, s') \<Rightarrow>
          (push_bit 8 (ucast (data ! 0)) OR ucast (data ! 1), s'\<lparr>ITG3200Buffer := data\<rparr>))"

definition ITG3200GetRotationZ :: "machine \<Rightarrow> 'i::len word \<times> machine" where
  "ITG3200GetRotationZ s =
     (case I2CDeviceReadBytes ITG3200_RA_GYRO_ZOUT_H 2 (ITG3200Buffer s) s of
        (r, data, s') \<Rightarrow>
          (push_bit 8 (ucast (data ! 0)) OR ucast (data ! 1), s'\<lparr>ITG3200Buffer := data\<rparr>))"

definition ITG3200Reset :: "machine \<Rightarrow> machine" where
  "ITG3200Reset s = snd (I2CDeviceWriteBit ITG3200_RA_PWR_MGM ITG3200_PWR_H_RESET_BIT True s)"

definition ITG3200GetSleepEnabled :: "machine \<Rightarrow> (bus_error + bool) \<times> machine" where
  "ITG3200GetSleepEnabled s = I2CDeviceReadBit ITG3200_RA_PWR_MGM ITG3200_PWR_SLEEP_BIT s"

definition ITG3200SetSleepEnabled :: "bool \<Rightarrow> machine \<Rightarrow> machine" where
  "ITG3200SetSleepEnabled enabled s = snd (I2CDeviceWriteBit ITG3200_RA_PWR_MGM ITG3200_PWR_SLEEP_BIT enabled s)"

definition ITG3200GetStandbyXEnabled :: "machine \<Rightarrow> (bus_error + bool) \<times> machine" where
  "ITG3200GetStandbyXEnabled s = I2CDeviceReadBit ITG3200_RA_PWR_MGM ITG3200_PWR_STBY_XG_BIT s"

definition ITG3200SetStandbyXEnabled :: "bool \<Rightarrow> machine \<Rightarrow> machine" where
  "ITG3200SetStandbyXEnabled enabled s = snd (I2CDeviceWriteBit ITG3200_RA_PWR_MGM ITG3200_PWR_STBY_XG_BIT enabled s)"

definition ITG3200GetStandbyYEnabled :: "machine \<Rightarrow> (bus_error + bool) \<times> machine" where
  "ITG3200GetStandbyYEnabled s = I2CDeviceReadBit ITG3200_RA_PWR_MGM ITG3200_PWR_STBY_YG_BIT s"

definition ITG3200SetStandbyYEnabled :: "bool \<Rightarrow> machine \<Rightarrow> machine" where
  "ITG3200SetStandbyYEnabled enabled s = snd (I2CDeviceWriteBit ITG3200_RA_PWR_MGM ITG3200_PWR_STBY_YG_BIT enabled s)"

definition ITG3200GetStandbyZEnabled :: "machine \<Rightarrow> (bus_error + bool) \<times> machine" where
  "ITG3200GetStandbyZEnabled s = I2CDeviceReadBit ITG3200_RA_PWR_MGM ITG3200_PWR_STBY_ZG_BIT s"

definition ITG3200SetStandbyZEnabled :: "bool \<Rightarrow> machine \<Rightarrow> machine" where
  "ITG3200SetStandbyZEnabled enabled s = snd (I2CDeviceWriteBit ITG3200_RA_PWR_MGM ITG3200_PWR_STBY_ZG_BIT enabled s)"

definition ITG3200GetClockSource :: "machine \<Rightarrow> (bus_error + byte) \<times> machine" where
  "ITG3200GetClockSource s = I2CDeviceReadBits ITG3200_RA_PWR_MGM ITG3200_PWR_CLK_SEL_BIT ITG3200_PWR_CLK_SEL_LENGTH s"

definition ITG3200SetClockSource :: "byte \<Rightarrow> machine \<Rightarrow> machine" where
  "ITG3200SetClockSource source s = snd (I2CDeviceWriteBits ITG3200_RA_PWR_MGM ITG3200_PWR_CLK_SEL_BIT ITG3200_PWR_CLK_SEL_LENGTH source s)"

definition ITG3200Initialize :: "machine \<Rightarrow> machine" where
  "ITG3200Initialize s =
     ITG3200SetClockSource ITG3200_CLOCK_PLL_XGYRO
       (ITG3200SetFullScaleRange ITG3200_FULLSCALE_2000 s)"

section \<open>The driver's interface as a whole\<close>

text \<open>
  The 39 functions declared in ITG3200.h, as one datatype of calls, so that a property of
  every operation can be stated once. \<open>call\<close> runs the function named and wraps what it
  returns: nothing for a \<open>void\<close> function, the accessor's result for a getter that returns
  it, the decoded integers for the burst reads.
\<close>

datatype op =
    OpGetDeviceID
  | OpSetDeviceID byte
  | OpGetRate
  | OpSetRate byte
  | OpGetFullScaleRange
  | OpSetFullScaleRange byte
  | OpGetDLPFBandwidth
  | OpSetDLPFBandwidth byte
  | OpGetInterruptMode
  | OpSetInterruptMode bool
  | OpGetInterruptDrive
  | OpSetInterruptDrive bool
  | OpGetInterruptLatch
  | OpSetInterruptLatch bool
  | OpGetInterruptLatchClear
  | OpSetInterruptLatchClear bool
  | OpGetIntDeviceReadyEnabled
  | OpSetIntDeviceReadyEnabled bool
  | OpGetIntDataReadyEnabled
  | OpSetIntDataReadyEnabled bool
  | OpGetIntDeviceReadyStatus
  | OpGetIntDataReadyStatus
  | OpGetTemperature
  | OpGetRotation
  | OpGetRotationX
  | OpGetRotationY
  | OpGetRotationZ
  | OpReset
  | OpGetSleepEnabled
  | OpSetSleepEnabled bool
  | OpGetStandbyXEnabled
  | OpSetStandbyXEnabled bool
  | OpGetStandbyYEnabled
  | OpSetStandbyYEnabled bool
  | OpGetStandbyZEnabled
  | OpSetStandbyZEnabled bool
  | OpGetClockSource
  | OpSetClockSource byte
  | OpInitialize

datatype 'w retval =
    RVoid
  | RByte "bus_error + byte"
  | RBool "bus_error + bool"
  | RInt 'w
  | RInt3 'w 'w 'w

fun call :: "op \<Rightarrow> machine \<Rightarrow> 'i::len word retval \<times> machine" where
  "call OpGetDeviceID s = (case ITG3200GetDeviceID s of (r, s') \<Rightarrow> (RByte r, s'))"
| "call (OpSetDeviceID v) s = (RVoid, ITG3200SetDeviceID v s)"
| "call OpGetRate s = (case ITG3200GetRate s of (r, s') \<Rightarrow> (RByte r, s'))"
| "call (OpSetRate v) s = (RVoid, ITG3200SetRate v s)"
| "call OpGetFullScaleRange s = (case ITG3200GetFullScaleRange s of (r, s') \<Rightarrow> (RByte r, s'))"
| "call (OpSetFullScaleRange v) s = (RVoid, ITG3200SetFullScaleRange v s)"
| "call OpGetDLPFBandwidth s = (case ITG3200GetDLPFBandwidth s of (r, s') \<Rightarrow> (RByte r, s'))"
| "call (OpSetDLPFBandwidth v) s = (RVoid, ITG3200SetDLPFBandwidth v s)"
| "call OpGetInterruptMode s = (case ITG3200GetInterruptMode s of (r, s') \<Rightarrow> (RBool r, s'))"
| "call (OpSetInterruptMode v) s = (RVoid, ITG3200SetInterruptMode v s)"
| "call OpGetInterruptDrive s = (case ITG3200getInterruptDrive s of (r, s') \<Rightarrow> (RBool r, s'))"
| "call (OpSetInterruptDrive v) s = (RVoid, ITG3200SetInterruptDrive v s)"
| "call OpGetInterruptLatch s = (case ITG3200GetInterruptLatch s of (r, s') \<Rightarrow> (RBool r, s'))"
| "call (OpSetInterruptLatch v) s = (RVoid, ITG3200SetInterruptLatch v s)"
| "call OpGetInterruptLatchClear s = (case ITG3200GetInterruptLatchClear s of (r, s') \<Rightarrow> (RBool r, s'))"
| "call (OpSetInterruptLatchClear v) s = (RVoid, ITG3200SetInterruptLatchClear v s)"
| "call OpGetIntDeviceReadyEnabled s = (case ITG3200GetIntDeviceReadyEnabled s of (r, s') \<Rightarrow> (RBool r, s'))"
| "call (OpSetIntDeviceReadyEnabled v) s = (RVoid, ITG3200SetIntDeviceReadyEnabled v s)"
| "call OpGetIntDataReadyEnabled s = (case ITG3200GetIntDataReadyEnabled s of (r, s') \<Rightarrow> (RBool r, s'))"
| "call (OpSetIntDataReadyEnabled v) s = (RVoid, ITG3200SetIntDataReadyEnabled v s)"
| "call OpGetIntDeviceReadyStatus s = (case ITG3200GetIntDeviceReadyStatus s of (r, s') \<Rightarrow> (RBool r, s'))"
| "call OpGetIntDataReadyStatus s = (case ITG3200GetIntDataReadyStatus s of (r, s') \<Rightarrow> (RBool r, s'))"
| "call OpGetTemperature s = (case ITG3200GetTemperature s of (r, s') \<Rightarrow> (RInt r, s'))"
| "call OpGetRotation s = (case ITG3200GetRotation s of ((x, y, z), s') \<Rightarrow> (RInt3 x y z, s'))"
| "call OpGetRotationX s = (case ITG3200GetRotationX s of (r, s') \<Rightarrow> (RInt r, s'))"
| "call OpGetRotationY s = (case ITG3200GetRotationY s of (r, s') \<Rightarrow> (RInt r, s'))"
| "call OpGetRotationZ s = (case ITG3200GetRotationZ s of (r, s') \<Rightarrow> (RInt r, s'))"
| "call OpReset s = (RVoid, ITG3200Reset s)"
| "call OpGetSleepEnabled s = (case ITG3200GetSleepEnabled s of (r, s') \<Rightarrow> (RBool r, s'))"
| "call (OpSetSleepEnabled v) s = (RVoid, ITG3200SetSleepEnabled v s)"
| "call OpGetStandbyXEnabled s = (case ITG3200GetStandbyXEnabled s of (r, s') \<Rightarrow> (RBool r, s'))"
| "call (OpSetStandbyXEnabled v) s = (RVoid, ITG3200SetStandbyXEnabled v s)"
| "call OpGetStandbyYEnabled s = (case ITG3200GetStandbyYEnabled s of (r, s') \<Rightarrow> (RBool r, s'))"
| "call (OpSetStandbyYEnabled v) s = (RVoid, ITG3200SetStandbyYEnabled v s)"
| "call OpGetStandbyZEnabled s = (case ITG3200GetStandbyZEnabled s of (r, s') \<Rightarrow> (RBool r, s'))"
| "call (OpSetStandbyZEnabled v) s = (RVoid, ITG3200SetStandbyZEnabled v s)"
| "call OpGetClockSource s = (case ITG3200GetClockSource s of (r, s') \<Rightarrow> (RByte r, s'))"
| "call (OpSetClockSource v) s = (RVoid, ITG3200SetClockSource v s)"
| "call OpInitialize s = (RVoid, ITG3200Initialize s)"

text \<open>The get operations: every function of the header whose name starts with Get (or get).\<close>
fun is_getter :: "op \<Rightarrow> bool" where
  "is_getter OpGetDeviceID = True"
| "is_getter OpGetRate = True"
| "is_getter OpGetFullScaleRange = True"
| "is_getter OpGetDLPFBandwidth = True"
| "is_getter OpGetInterruptMode = True"
| "is_getter OpGetInterruptDrive = True"
| "is_getter OpGetInterruptLatch = True"
| "is_getter OpGetInterruptLatchClear = True"
| "is_getter OpGetIntDeviceReadyEnabled = True"
| "is_getter OpGetIntDataReadyEnabled = True"
| "is_getter OpGetIntDeviceReadyStatus = True"
| "is_getter OpGetIntDataReadyStatus = True"
| "is_getter OpGetTemperature = True"
| "is_getter OpGetRotation = True"
| "is_getter OpGetRotationX = True"
| "is_getter OpGetRotationY = True"
| "is_getter OpGetRotationZ = True"
| "is_getter OpGetSleepEnabled = True"
| "is_getter OpGetStandbyXEnabled = True"
| "is_getter OpGetStandbyYEnabled = True"
| "is_getter OpGetStandbyZEnabled = True"
| "is_getter OpGetClockSource = True"
| "is_getter _ = False"

text \<open>The set operations, all \<open>void\<close>: the Set functions and Reset.\<close>
fun is_setter :: "op \<Rightarrow> bool" where
  "is_setter (OpSetDeviceID v) = True"
| "is_setter (OpSetRate v) = True"
| "is_setter (OpSetFullScaleRange v) = True"
| "is_setter (OpSetDLPFBandwidth v) = True"
| "is_setter (OpSetInterruptMode v) = True"
| "is_setter (OpSetInterruptDrive v) = True"
| "is_setter (OpSetInterruptLatch v) = True"
| "is_setter (OpSetInterruptLatchClear v) = True"
| "is_setter (OpSetIntDeviceReadyEnabled v) = True"
| "is_setter (OpSetIntDataReadyEnabled v) = True"
| "is_setter OpReset = True"
| "is_setter (OpSetSleepEnabled v) = True"
| "is_setter (OpSetStandbyXEnabled v) = True"
| "is_setter (OpSetStandbyYEnabled v) = True"
| "is_setter (OpSetStandbyZEnabled v) = True"
| "is_setter (OpSetClockSource v) = True"
| "is_setter _ = False"

text \<open>The temperature and rotation reads, which decode \<open>ITG3200Buffer\<close>.\<close>
fun is_burst_read :: "op \<Rightarrow> bool" where
  "is_burst_read OpGetTemperature = True"
| "is_burst_read OpGetRotation = True"
| "is_burst_read OpGetRotationX = True"
| "is_burst_read OpGetRotationY = True"
| "is_burst_read OpGetRotationZ = True"
| "is_burst_read _ = False"

text \<open>What a burst read returns when decoding a given buffer content.\<close>
fun decoded_from :: "op \<Rightarrow> byte list \<Rightarrow> 'i::len word retval" where
  "decoded_from OpGetRotation data =
     RInt3 (push_bit 8 (ucast (data ! 0)) OR ucast (data ! 1))
           (push_bit 8 (ucast (data ! 2)) OR ucast (data ! 3))
           (push_bit 8 (ucast (data ! 4)) OR ucast (data ! 5))"
| "decoded_from _ data = RInt (push_bit 8 (ucast (data ! 0)) OR ucast (data ! 1))"

section \<open>Observations on a run\<close>

text \<open>The transactions issued between two states, and whether one of them failed.\<close>

definition issued :: "machine \<Rightarrow> machine \<Rightarrow> txn list" where
  "issued s s' = drop (length (trace s)) (trace s')"

definition faulted :: "machine \<Rightarrow> machine \<Rightarrow> bool" where
  "faulted s s' = (True \<in> set (take (length (issued s s')) (faults s)))"

fun is_read :: "txn \<Rightarrow> bool" where
  "is_read (TxReadByte r) = True"
| "is_read (TxReadBytes r n) = True"
| "is_read (TxWriteByte r v) = False"

text \<open>The registers a transaction addresses; a burst covers consecutive addresses.\<close>
fun txn_regs :: "txn \<Rightarrow> byte list" where
  "txn_regs (TxReadByte r) = [r]"
| "txn_regs (TxWriteByte r v) = [r]"
| "txn_regs (TxReadBytes r n) = map (\<lambda>i. r + of_nat i) [0..<n]"

text \<open>The register addresses of the transactions issued between two states.\<close>
definition addressed :: "machine \<Rightarrow> machine \<Rightarrow> byte list" where
  "addressed s s' = concat (map txn_regs (issued s s'))"

definition register_map :: "byte list" where
  "register_map =
     [ITG3200_RA_WHO_AM_I, ITG3200_RA_SMPLRT_DIV, ITG3200_RA_DLPF_FS, ITG3200_RA_INT_CFG,
      ITG3200_RA_INT_STATUS, ITG3200_RA_TEMP_OUT_H, ITG3200_RA_TEMP_OUT_L,
      ITG3200_RA_GYRO_XOUT_H, ITG3200_RA_GYRO_XOUT_L, ITG3200_RA_GYRO_YOUT_H,
      ITG3200_RA_GYRO_YOUT_L, ITG3200_RA_GYRO_ZOUT_H, ITG3200_RA_GYRO_ZOUT_L,
      ITG3200_RA_PWR_MGM]"

section \<open>Bit-field descriptors\<close>

text \<open>
  The fields the driver accesses, as (register, most significant bit, width): the
  \<open>_BIT\<close>/\<open>_LENGTH\<close> macros of the header paired with the register each is used on in
  ITG3200.c. A flag accessed with the single-bit accessors has width 1.
\<close>

definition descriptors :: "(byte \<times> nat \<times> nat) list" where
  "descriptors =
     [(ITG3200_RA_WHO_AM_I, ITG3200_DEVID_BIT, ITG3200_DEVID_LENGTH),
      (ITG3200_RA_DLPF_FS, ITG3200_DF_FS_SEL_BIT, ITG3200_DF_FS_SEL_LENGTH),
      (ITG3200_RA_DLPF_FS, ITG3200_DF_DLPF_CFG_BIT, ITG3200_DF_DLPF_CFG_LENGTH),
      (ITG3200_RA_INT_CFG, ITG3200_INTCFG_ACTL_BIT, 1),
      (ITG3200_RA_INT_CFG, ITG3200_INTCFG_OPEN_BIT, 1),
      (ITG3200_RA_INT_CFG, ITG3200_INTCFG_LATCH_INT_EN_BIT, 1),
      (ITG3200_RA_INT_CFG, ITG3200_INTCFG_INT_ANYRD_2CLEAR_BIT, 1),
      (ITG3200_RA_INT_CFG, ITG3200_INTCFG_ITG_RDY_EN_BIT, 1),
      (ITG3200_RA_INT_CFG, ITG3200_INTCFG_RAW_RDY_EN_BIT, 1),
      (ITG3200_RA_INT_STATUS, ITG3200_INTSTAT_ITG_RDY_BIT, 1),
      (ITG3200_RA_INT_STATUS, ITG3200_INTSTAT_RAW_DATA_READY_BIT, 1),
      (ITG3200_RA_PWR_MGM, ITG3200_PWR_H_RESET_BIT, 1),
      (ITG3200_RA_PWR_MGM, ITG3200_PWR_SLEEP_BIT, 1),
      (ITG3200_RA_PWR_MGM, ITG3200_PWR_STBY_XG_BIT, 1),
      (ITG3200_RA_PWR_MGM, ITG3200_PWR_STBY_YG_BIT, 1),
      (ITG3200_RA_PWR_MGM, ITG3200_PWR_STBY_ZG_BIT, 1),
      (ITG3200_RA_PWR_MGM, ITG3200_PWR_CLK_SEL_BIT, ITG3200_PWR_CLK_SEL_LENGTH)]"

text \<open>The invariant in the words of the data model: position + width at most 8.\<close>
fun spec_fits :: "byte \<times> nat \<times> nat \<Rightarrow> bool" where
  "spec_fits (r, pos, width) = (pos + width \<le> 8)"

text \<open>A field named by its most significant bit lies inside the byte when that bit is at
  most 7 and the width does not reach below bit 0.\<close>
fun fits_byte :: "byte \<times> nat \<times> nat \<Rightarrow> bool" where
  "fits_byte (r, pos, width) = (1 \<le> width \<and> pos \<le> 7 \<and> width \<le> pos + 1)"

text \<open>The (register, bit) cells a field occupies: \<open>width\<close> bits from \<open>pos\<close> downwards.\<close>
fun field_cells :: "byte \<times> nat \<times> nat \<Rightarrow> (byte \<times> nat) list" where
  "field_cells (r, pos, width) = map (\<lambda>i. (r, i)) [Suc pos - width ..< Suc pos]"

section \<open>The decoding rule in the words of the spec\<close>

text \<open>\<open>(firstByte << 8) | secondByte\<close> on unbounded integers, then read as a 16-bit
  two's-complement number.\<close>
definition spec_decode :: "byte \<Rightarrow> byte \<Rightarrow> int" where
  "spec_decode firstByte secondByte =
     (let u = uint firstByte * 256 + uint secondByte
      in if u < 32768 then u else u - 65536)"

section \<open>The interrupt-configuration flags\<close>

text \<open>The six single-bit flags of INT_CFG: the bit, the setter and the getter of each, as
  ITG3200.c pairs them.\<close>
definition intcfg_flags ::
  "(nat \<times> (bool \<Rightarrow> machine \<Rightarrow> machine) \<times> (machine \<Rightarrow> (bus_error + bool) \<times> machine)) list" where
  "intcfg_flags =
     [(ITG3200_INTCFG_ACTL_BIT, ITG3200SetInterruptMode, ITG3200GetInterruptMode),
      (ITG3200_INTCFG_OPEN_BIT, ITG3200SetInterruptDrive, ITG3200getInterruptDrive),
      (ITG3200_INTCFG_LATCH_INT_EN_BIT, ITG3200SetInterruptLatch, ITG3200GetInterruptLatch),
      (ITG3200_INTCFG_INT_ANYRD_2CLEAR_BIT, ITG3200SetInterruptLatchClear,
         ITG3200GetInterruptLatchClear),
      (ITG3200_INTCFG_ITG_RDY_EN_BIT, ITG3200SetIntDeviceReadyEnabled,
         ITG3200GetIntDeviceReadyEnabled),
      (ITG3200_INTCFG_RAW_RDY_EN_BIT, ITG3200SetIntDataReadyEnabled,
         ITG3200GetIntDataReadyEnabled)]"

section \<open>Concrete machines\<close>

text \<open>A machine with the given register contents and fault schedule, an empty trace and
  the scratch buffer zeroed, as a global array is at start-up.\<close>
definition mock_bus :: "(byte \<Rightarrow> byte) \<Rightarrow> bool list \<Rightarrow> machine" where
  "mock_bus r fs = \<lparr>regs = r, faults = fs, trace = [], ITG3200Buffer = [0, 0, 0, 0, 0, 0]\<rparr>"


text \<open>A machine whose next transaction fails, with the scratch buffer still holding the
  bytes 0x12, 0x34 of an earlier read while every register holds 0xFF.\<close>
definition stale_machine :: machine where
  "stale_machine =
     \<lparr>regs = (\<lambda>_. 0xFF), faults = [True], trace = [],
      ITG3200Buffer = [0x12, 0x34, 0, 0, 0, 0]\<rparr>"

text \<open>A machine with a working bus whose temperature registers hold 0x12, 0x34.\<close>
definition reading_machine :: machine where
  "reading_machine =
     \<lparr>regs = (\<lambda>r. if r = ITG3200_RA_TEMP_OUT_H then 0x12
                   else if r = ITG3200_RA_TEMP_OUT_L then 0x34 else 0),
      faults = [], trace = [], ITG3200Buffer = [0, 0, 0, 0, 0, 0]\<rparr>"

text \<open>A machine with a working bus holding readings whose first byte has the top bit set:
  temperature 0x80, 0x00 and Y rotation 0xFF, 0xFF; X rotation is 0x7F, 0xFF and Z is
  0x00, 0x00.\<close>
definition negative_reading_machine :: machine where
  "negative_reading_machine =
     \<lparr>regs = (\<lambda>r. if r = ITG3200_RA_TEMP_OUT_H then 0x80
                   else if r = ITG3200_RA_GYRO_XOUT_H then 0x7F
                   else if r = ITG3200_RA_GYRO_XOUT_L then 0xFF
                   else if r = ITG3200_RA_GYRO_YOUT_H then 0xFF
                   else if r = ITG3200_RA_GYRO_YOUT_L then 0xFF else 0),
      faults = [], trace = [], ITG3200Buffer = [0, 0, 0, 0, 0, 0]\<rparr>"

section \<open>Decoding of register pairs\<close>

lemma next_fails_nil [simp]: "faults s = [] \<Longrightarrow> \<not> next_fails s"
  by (simp add: next_fails_def)

lemma issue_simps [simp]:
  "regs (issue t s) = regs s"
  "faults (issue t s) = tl (faults s)"
  "trace (issue t s) = trace s @ [t]"
  "ITG3200Buffer (issue t s) = ITG3200Buffer s"
  by (simp_all add: issue_def)

lemma twos16:
  "0 \<le> u \<Longrightarrow> u < 65536 \<Longrightarrow>
     (u + 32768) mod 65536 - 32768 = (if u < 32768 then u else u - 65536)" for u :: int
proof (cases "u < 32768")
  case True
  assume "0 \<le> u"
  with True have "(u + 32768) mod 65536 = u + 32768"
    by (simp add: mod_pos_pos_trivial)
  with True show ?thesis by simp
next
  case False
  assume "u < 65536"
  with False have "(u - 32768) mod 65536 = u - 32768"
    by (simp add: mod_pos_pos_trivial)
  moreover have e: "u + 32768 = u - 32768 + 65536"
    by simp
  have "(u + 32768) mod 65536 = (u - 32768) mod 65536"
    unfolding e by (rule mod_add_self2)
  ultimately have "(u + 32768) mod 65536 = u - 32768"
    by simp
  with False show ?thesis by simp
qed

text \<open>In 16 bits, where the word model wraps, the expression is the two's-complement
  number of the decoding rule.\<close>

lemma decode_at_16:
  "sint (push_bit 8 (ucast (a::byte)) OR ucast (b::byte) :: 16 word) = spec_decode a b"
proof -
  let ?w = "push_bit 8 (ucast a) OR ucast b :: 16 word"
  have ba: "0 \<le> uint a" "uint a < 256" and bb: "0 \<le> uint b" "uint b < 256"
    using uint_lt2p [of a] uint_lt2p [of b] by simp_all
  have "?w = (word_cat a b :: 16 word)"
    by (simp add: word_cat_eq_push_bit_or)
  also have "\<dots> = push_bit 8 (ucast a) + ucast b"
    by (simp add: word_cat_eq)
  finally have "uint ?w = uint (push_bit 8 (ucast a) + ucast b :: 16 word)"
    by simp
  also have "\<dots> = uint a * 256 + uint b"
    using ba bb
    by (simp add: uint_word_ariths push_bit_eq_mult uint_up_ucast is_up
        source_size target_size word_size)
  finally have u: "uint ?w = uint a * 256 + uint b" .
  have "sint ?w = take_bit 16 (uint ?w + 32768) - 32768"
    by (simp add: sint_uint signed_take_bit_eq_take_bit_shift)
  also have "\<dots> = spec_decode a b"
    using ba bb twos16 [of "uint a * 256 + uint b"]
    by (simp add: u spec_decode_def take_bit_eq_mod Let_def)
  finally show ?thesis .
qed

text \<open>In more than 16 bits nothing is cut off and the sign bit stays clear: the expression
  is the unsigned number made of the two bytes.\<close>

lemma decode_wide:
  assumes "16 < LENGTH('i::len)"
  shows "sint (push_bit 8 (ucast (a::byte)) OR ucast (b::byte) :: 'i word)
           = uint a * 256 + uint b"
proof -
  let ?w = "push_bit 8 (ucast a) OR ucast b :: 'i word"
  have ba: "0 \<le> uint a" "uint a < 256" and bb: "0 \<le> uint b" "uint b < 256"
    using uint_lt2p [of a] uint_lt2p [of b] by simp_all
  then have r: "0 \<le> uint a * 256 + uint b" "uint a * 256 + uint b < 65536"
    by linarith+
  from assms have "(2::int) ^ 16 \<le> 2 ^ (LENGTH('i) - 1)"
    by (intro power_increasing) simp_all
  then have p: "(65536::int) \<le> 2 ^ (LENGTH('i) - 1)"
    by simp
  have "?w = (word_cat a b :: 'i word)"
    by (simp add: word_cat_eq_push_bit_or)
  also have "\<dots> = push_bit 8 (ucast a) + ucast b"
    by (simp add: word_cat_eq)
  also have "\<dots> = ucast a * 256 + ucast b"
    by (simp add: push_bit_eq_mult)
  also have "\<dots> = word_of_int (uint a * 256 + uint b)"
    by simp
  finally have "sint ?w = signed_take_bit (LENGTH('i) - 1) (uint a * 256 + uint b)"
    by (simp only: sint_sbintrunc')
  also have "\<dots> = uint a * 256 + uint b"
    using r p by (intro signed_take_bit_int_eq_self) linarith+
  finally show ?thesis .
qed

text \<open>The unsigned number is the number of the decoding rule when the first byte is below
  0x80, and 65536 more otherwise.\<close>

lemma unsigned_vs_spec_decode:
  "uint hi * 256 + uint lo = spec_decode hi lo + (if hi < 0x80 then 0 else 65536)"
proof -
  have b: "0 \<le> uint lo" "uint lo < 256" "0 \<le> uint hi"
    using uint_lt2p [of lo] by simp_all
  have lt: "hi < 0x80 \<longleftrightarrow> uint hi < 128"
    by (simp add: word_less_def)
  show ?thesis
  proof (cases "uint hi < 128")
    case True
    with b have "uint hi * 256 + uint lo < 32768"
      by linarith
    with True lt show ?thesis
      by (simp add: spec_decode_def Let_def)
  next
    case False
    with b have "\<not> uint hi * 256 + uint lo < 32768"
      by linarith
    with False lt show ?thesis
      by (simp add: spec_decode_def Let_def)
  qed
qed

lemma ReadBytes_ok:
  "faults s = [] \<Longrightarrow> I2CDeviceReadBytes reg n data s =
     (Inr (), map (\<lambda>i. regs s (reg + of_nat i)) [0..<n] @ drop n data, issue (TxReadBytes reg n) s)"
  by (simp add: I2CDeviceReadBytes_def bus_readBytes_def)

lemma upt2: "[0..<2] = [0, Suc 0]" by (simp add: upt_rec)
lemma upt6: "[0..<6] = [0, 1, 2, 3, 4, 5]" by (simp add: upt_rec)

lemma temp_ok: "faults s = [] \<Longrightarrow> fst (ITG3200GetTemperature s) =
   push_bit 8 (ucast (regs s ITG3200_RA_TEMP_OUT_H)) OR ucast (regs s ITG3200_RA_TEMP_OUT_L)"
  by (simp add: ITG3200GetTemperature_def ReadBytes_ok upt2 itg_const)

lemma rot_ok: "faults s = [] \<Longrightarrow> fst (ITG3200GetRotation s) =
   (push_bit 8 (ucast (regs s ITG3200_RA_GYRO_XOUT_H)) OR ucast (regs s ITG3200_RA_GYRO_XOUT_L),
    push_bit 8 (ucast (regs s ITG3200_RA_GYRO_YOUT_H)) OR ucast (regs s ITG3200_RA_GYRO_YOUT_L),
    push_bit 8 (ucast (regs s ITG3200_RA_GYRO_ZOUT_H)) OR ucast (regs s ITG3200_RA_GYRO_ZOUT_L))"
  by (simp add: ITG3200GetRotation_def ReadBytes_ok upt6 itg_const)


lemma burst2_ok:
  "faults s = [] \<Longrightarrow> I2CDeviceReadBytes reg 2 data s =
     (Inr (), regs s reg # regs s (reg + 1) # drop 2 data, issue (TxReadBytes reg 2) s)"
  by (simp add: ReadBytes_ok upt2)

lemma rotX_ok: "faults s = [] \<Longrightarrow> fst (ITG3200GetRotationX s) =
   push_bit 8 (ucast (regs s ITG3200_RA_GYRO_XOUT_H)) OR ucast (regs s ITG3200_RA_GYRO_XOUT_L)"
  by (simp add: ITG3200GetRotationX_def burst2_ok itg_const)

lemma rotY_ok: "faults s = [] \<Longrightarrow> fst (ITG3200GetRotationY s) =
   push_bit 8 (ucast (regs s ITG3200_RA_GYRO_YOUT_H)) OR ucast (regs s ITG3200_RA_GYRO_YOUT_L)"
  by (simp add: ITG3200GetRotationY_def burst2_ok itg_const)

lemma rotZ_ok: "faults s = [] \<Longrightarrow> fst (ITG3200GetRotationZ s) =
   push_bit 8 (ucast (regs s ITG3200_RA_GYRO_ZOUT_H)) OR ucast (regs s ITG3200_RA_GYRO_ZOUT_L)"
  by (simp add: ITG3200GetRotationZ_def burst2_ok itg_const)

lemma spec_decode_range: "- 32768 \<le> spec_decode hi lo \<and> spec_decode hi lo \<le> 32767"
proof -
  define u where "u = uint hi * 256 + uint lo"
  have "uint hi < 256" "uint lo < 256"
    using uint_lt2p [of hi] uint_lt2p [of lo] by simp_all
  moreover have "0 \<le> uint hi" "0 \<le> uint lo"
    by simp_all
  ultimately have "0 \<le> u" "u < 65536"
    unfolding u_def by linarith+
  then have "- 32768 \<le> (if u < 32768 then u else u - 65536)
      \<and> (if u < 32768 then u else u - 65536) \<le> 32767"
    by (cases "u < 32768") simp_all
  then show ?thesis
    unfolding spec_decode_def Let_def u_def .
qed

text \<open>
  Claim C1 asks each two-byte read to return the 16-bit two's-complement number of its
  register pair. The code computes the number in \<open>int\<close> and never narrows it: wherever
  \<open>int\<close> is wider than 16 bits, on a bus without faults, the temperature read, the three
  values of the combined rotation read and each single-axis read return the unsigned
  number \<open>firstByte * 256 + secondByte\<close>, between 0 and 65535. That is the number of the
  claim when the first byte is below 0x80 and 65536 more otherwise: (0x80,0x00) reads
  32768, not -32768, and (0xFF,0xFF) reads 65535, not -1.
\<close>

theorem C1_decode_unsigned:
  assumes "faults s = []" and "16 < LENGTH('i::len)"
  shows "sint (fst (ITG3200GetTemperature s :: 'i word \<times> machine))
           = uint (regs s ITG3200_RA_TEMP_OUT_H) * 256 + uint (regs s ITG3200_RA_TEMP_OUT_L)
       \<and> (case fst (ITG3200GetRotation s :: ('i word \<times> 'i word \<times> 'i word) \<times> machine) of
            (x, y, z) \<Rightarrow>
              sint x = uint (regs s ITG3200_RA_GYRO_XOUT_H) * 256
                         + uint (regs s ITG3200_RA_GYRO_XOUT_L)
            \<and> sint y = uint (regs s ITG3200_RA_GYRO_YOUT_H) * 256
                         + uint (regs s ITG3200_RA_GYRO_YOUT_L)
            \<and> sint z = uint (regs s ITG3200_RA_GYRO_ZOUT_H) * 256
                         + uint (regs s ITG3200_RA_GYRO_ZOUT_L))
       \<and> sint (fst (ITG3200GetRotationX s :: 'i word \<times> machine))
           = uint (regs s ITG3200_RA_GYRO_XOUT_H) * 256 + uint (regs s ITG3200_RA_GYRO_XOUT_L)
       \<and> sint (fst (ITG3200GetRotationY s :: 'i word \<times> machine))
           = uint (regs s ITG3200_RA_GYRO_YOUT_H) * 256 + uint (regs s ITG3200_RA_GYRO_YOUT_L)
       \<and> sint (fst (ITG3200GetRotationZ s :: 'i word \<times> machine))
           = uint (regs s ITG3200_RA_GYRO_ZOUT_H) * 256 + uint (regs s ITG3200_RA_GYRO_ZOUT_L)
       \<and> uint hi * 256 + uint lo = spec_decode hi lo + (if hi < 0x80 then 0 else 65536)
       \<and> - 32768 \<le> spec_decode hi lo \<and> spec_decode hi lo \<le> 32767
       \<and> spec_decode 0x00 0x00 = 0 \<and> spec_decode 0x7F 0xFF = 32767
       \<and> spec_decode 0x80 0x00 = - 32768 \<and> spec_decode 0xFF 0xFF = - 1"
proof -
  have ex: "spec_decode 0x00 0x00 = 0" "spec_decode 0x7F 0xFF = 32767"
    "spec_decode 0x80 0x00 = - 32768" "spec_decode 0xFF 0xFF = - 1"
    by (simp_all add: spec_decode_def)
  show ?thesis
    using assms(1) spec_decode_range [of hi lo] unsigned_vs_spec_decode [of hi lo]
    by (simp add: temp_ok rot_ok rotX_ok rotY_ok rotZ_ok decode_wide [OF assms(2)] ex)
qed

theorem C1_decode_unsigned_witness:
  "faults negative_reading_machine = [] \<and> 16 < LENGTH(32)
   \<and> sint (fst (ITG3200GetTemperature negative_reading_machine :: 32 word \<times> machine)) = 32768
   \<and> spec_decode 0x80 0x00 = - 32768
   \<and> sint (fst (ITG3200GetRotationY negative_reading_machine :: 32 word \<times> machine)) = 65535
   \<and> spec_decode 0xFF 0xFF = - 1
   \<and> sint (fst (ITG3200GetRotationX negative_reading_machine :: 32 word \<times> machine)) = 32767
   \<and> sint (fst (ITG3200GetRotationZ negative_reading_machine :: 32 word \<times> machine)) = 0
   \<and> sint (fst (snd (fst (ITG3200GetRotation negative_reading_machine
                 :: (32 word \<times> 32 word \<times> 32 word) \<times> machine)))) = 65535"
proof -
  have f: "faults negative_reading_machine = []"
    by (simp add: negative_reading_machine_def)
  have w: "16 < LENGTH(32)"
    by simp
  have r: "regs negative_reading_machine ITG3200_RA_TEMP_OUT_H = 0x80"
      "regs negative_reading_machine ITG3200_RA_TEMP_OUT_L = 0x00"
      "regs negative_reading_machine ITG3200_RA_GYRO_XOUT_H = 0x7F"
      "regs negative_reading_machine ITG3200_RA_GYRO_XOUT_L = 0xFF"
      "regs negative_reading_machine ITG3200_RA_GYRO_YOUT_H = 0xFF"
      "regs negative_reading_machine ITG3200_RA_GYRO_YOUT_L = 0xFF"
      "regs negative_reading_machine ITG3200_RA_GYRO_ZOUT_H = 0x00"
      "regs negative_reading_machine ITG3200_RA_GYRO_ZOUT_L = 0x00"
    by (simp_all add: negative_reading_machine_def itg_const)
  show ?thesis
    using C1_decode_unsigned [OF f w, of 0 0]
    by (simp add: f r split: prod.splits)
qed

section \<open>Bit fields: masking and round trip\<close>

lemma field_mask_bit:
  "bit (field_mask st len) m \<longleftrightarrow> field_shift st len \<le> m \<and> m < field_shift st len + len \<and> m < 8"
  by (auto simp: field_mask_def bit_simps simp flip: mask_eq_exp_minus_1)

lemma field_written_bit:
  "bit (((b::byte) AND NOT (field_mask st len)) OR (push_bit (field_shift st len) v AND field_mask st len)) m
     \<longleftrightarrow> (if field_shift st len \<le> m \<and> m < field_shift st len + len \<and> m < 8
          then bit v (m - field_shift st len) else bit b m)"
  by (auto simp: field_mask_bit bit_simps dest: bit_imp_le_length)

lemma field_roundtrip:
  assumes "st \<le> 7" "len \<le> st + 1"
  shows "drop_bit (field_shift st len)
           (((b::byte) AND NOT (field_mask st len)) OR (push_bit (field_shift st len) v AND field_mask st len))
         AND (2 ^ len - 1) = take_bit len v"
proof -
  define w where "w = ((b AND NOT (field_mask st len))
                         OR (push_bit (field_shift st len) v AND field_mask st len))"
  have w: "bit w k \<longleftrightarrow> (if field_shift st len \<le> k \<and> k < field_shift st len + len \<and> k < 8
          then bit v (k - field_shift st len) else bit b k)" for k
    unfolding w_def by (rule field_written_bit)
  from assms have sh: "field_shift st len + len = Suc st"
    by (simp add: field_shift_def)
  have "drop_bit (field_shift st len) w AND (2 ^ len - 1) = take_bit len v"
  proof (rule bit_word_eqI)
    fix m assume "m < LENGTH(8)"
    have "bit (drop_bit (field_shift st len) w AND mask len) m
            \<longleftrightarrow> m < len \<and> bit w (field_shift st len + m)"
      using \<open>m < LENGTH(8)\<close> by (auto simp: bit_and_iff bit_drop_bit_eq bit_mask_iff)
    also have "\<dots> \<longleftrightarrow> m < len \<and> bit v m"
      using assms sh by (auto simp: w)
    also have "\<dots> \<longleftrightarrow> bit (take_bit len v) m"
      by (simp add: bit_take_bit_iff)
    finally show "bit (drop_bit (field_shift st len) w AND (2 ^ len - 1)) m
                    \<longleftrightarrow> bit (take_bit len v) m"
      by (simp add: mask_eq_exp_minus_1)
  qed
  then show ?thesis
    by (simp add: w_def)
qed

lemma unat_take_bit_byte: "unat (take_bit len (v::byte)) = unat v mod 2 ^ len"
  by (simp add: unsigned_take_bit_eq) (simp add: take_bit_eq_mod)


lemma test_bit_eq: "((b::byte) AND 2 ^ q \<noteq> 0) \<longleftrightarrow> bit b q"
  by (simp add: and_exp_eq_0_iff_not_bit)

lemma issued_append [simp]: "trace s' = trace s @ ts \<Longrightarrow> issued s s' = ts"
  by (simp add: issued_def)

lemma ReadBit_ok:
  assumes "faults s = []"
  shows "fst (I2CDeviceReadBit reg q s) = Inr (bit (regs s reg) q)"
    and "regs (snd (I2CDeviceReadBit reg q s)) = regs s"
    and "trace (snd (I2CDeviceReadBit reg q s)) = trace s @ [TxReadByte reg]"
    and "faults (snd (I2CDeviceReadBit reg q s)) = []"
    and "ITG3200Buffer (snd (I2CDeviceReadBit reg q s)) = ITG3200Buffer s"
  using assms by (simp_all add: I2CDeviceReadBit_def bus_readByte_def test_bit_eq)

lemma ReadBits_ok:
  assumes "faults s = []"
  shows "fst (I2CDeviceReadBits reg st len s)
           = Inr (drop_bit (field_shift st len) (regs s reg) AND (2 ^ len - 1))"
    and "regs (snd (I2CDeviceReadBits reg st len s)) = regs s"
    and "trace (snd (I2CDeviceReadBits reg st len s)) = trace s @ [TxReadByte reg]"
    and "faults (snd (I2CDeviceReadBits reg st len s)) = []"
    and "ITG3200Buffer (snd (I2CDeviceReadBits reg st len s)) = ITG3200Buffer s"
  using assms by (simp_all add: I2CDeviceReadBits_def bus_readByte_def)

lemma WriteBit_ok:
  assumes "faults s = []"
  shows "fst (I2CDeviceWriteBit reg q v s) = Inr ()"
    and "regs (snd (I2CDeviceWriteBit reg q v s))
           = (regs s)(reg := (if v then regs s reg OR push_bit q 1
                              else regs s reg AND NOT (push_bit q 1)))"
    and "trace (snd (I2CDeviceWriteBit reg q v s))
           = trace s @ [TxReadByte reg,
                        TxWriteByte reg (if v then regs s reg OR push_bit q 1
                                         else regs s reg AND NOT (push_bit q 1))]"
    and "faults (snd (I2CDeviceWriteBit reg q v s)) = []"
    and "ITG3200Buffer (snd (I2CDeviceWriteBit reg q v s)) = ITG3200Buffer s"
  using assms by (simp_all add: I2CDeviceWriteBit_def bus_readByte_def bus_writeByte_def)

lemma WriteBits_ok:
  assumes "faults s = []"
  shows "fst (I2CDeviceWriteBits reg st len v s) = Inr ()"
    and "regs (snd (I2CDeviceWriteBits reg st len v s))
           = (regs s)(reg := (regs s reg AND NOT (field_mask st len))
                               OR (push_bit (field_shift st len) v AND field_mask st len))"
    and "trace (snd (I2CDeviceWriteBits reg st len v s))
           = trace s @ [TxReadByte reg,
                        TxWriteByte reg ((regs s reg AND NOT (field_mask st len))
                               OR (push_bit (field_shift st len) v AND field_mask st len))]"
    and "faults (snd (I2CDeviceWriteBits reg st len v s)) = []"
    and "ITG3200Buffer (snd (I2CDeviceWriteBits reg st len v s)) = ITG3200Buffer s"
  using assms by (simp_all add: I2CDeviceWriteBits_def bus_readByte_def bus_writeByte_def)

lemma field_readback:
  assumes "faults s = []" and "bitStart \<le> 7" and "len \<le> bitStart + 1"
  shows "fst (I2CDeviceReadBits reg bitStart len (snd (I2CDeviceWriteBits reg bitStart len v s)))
           = Inr (take_bit len v)"
proof -
  let ?s' = "snd (I2CDeviceWriteBits reg bitStart len v s)"
  have f': "faults ?s' = []"
    using assms(1) by (rule WriteBits_ok(4))
  have r: "regs ?s' reg = (regs s reg AND NOT (field_mask bitStart len))
                            OR (push_bit (field_shift bitStart len) v AND field_mask bitStart len)"
    by (simp add: WriteBits_ok(2) [OF assms(1)])
  have "fst (I2CDeviceReadBits reg bitStart len ?s')
          = Inr (drop_bit (field_shift bitStart len) (regs ?s' reg) AND (2 ^ len - 1))"
    using f' by (rule ReadBits_ok(1))
  also have "\<dots> = Inr (take_bit len v)"
    by (simp only: r field_roundtrip [OF assms(2,3)])
  finally show ?thesis .
qed

text \<open>
  Claim C5. For every register, every field that lies inside the byte (most significant
  bit \<open>bitStart\<close> at most 7, \<open>len\<close> at most \<open>bitStart + 1\<close>) and every value \<open>v\<close>,
  also one with bits beyond the field width: on a bus without faults \<open>writeBits\<close> reports
  no error, and \<open>readBits\<close> of the same field afterwards returns \<open>v mod 2 ^ len\<close>.
\<close>

theorem C5_writeBits_readBits:
  assumes "faults s = []" and "bitStart \<le> 7" and "len \<le> bitStart + 1"
  shows "fst (I2CDeviceWriteBits reg bitStart len v s) = Inr ()
       \<and> fst (I2CDeviceReadBits reg bitStart len (snd (I2CDeviceWriteBits reg bitStart len v s)))
           = Inr (take_bit len v)
       \<and> unat (take_bit len v) = unat v mod 2 ^ len"
  using assms
  by (simp add: field_readback WriteBits_ok(1) unat_take_bit_byte)

theorem C5_writeBits_readBits_witness:
  "faults (mock_bus (\<lambda>_. 0xA5) []) = [] \<and> (4::nat) \<le> 7 \<and> (2::nat) \<le> 4 + 1
   \<and> fst (I2CDeviceReadBits ITG3200_RA_DLPF_FS 4 2
            (snd (I2CDeviceWriteBits ITG3200_RA_DLPF_FS 4 2 0xFE (mock_bus (\<lambda>_. 0xA5) []))))
       = Inr 2
   \<and> regs (snd (I2CDeviceWriteBits ITG3200_RA_DLPF_FS 4 2 0xFE (mock_bus (\<lambda>_. 0xA5) [])))
        ITG3200_RA_DLPF_FS = 0xB5"
proof -
  have f: "faults (mock_bus (\<lambda>_. 0xA5) []) = []"
    by (simp add: mock_bus_def)
  have r: "regs (snd (I2CDeviceWriteBits ITG3200_RA_DLPF_FS 4 2 0xFE (mock_bus (\<lambda>_. 0xA5) [])))
        ITG3200_RA_DLPF_FS = 0xB5"
    by (simp add: WriteBits_ok f) (simp add: mock_bus_def field_mask_def field_shift_def)
  show ?thesis
    using C5_writeBits_readBits [OF f, of 4 2 ITG3200_RA_DLPF_FS "0xFE"] r
    by (simp add: f)
qed

section \<open>Single bits, field setters and initialization\<close>

lemma written_bit:
  "bit (if v then (b::byte) OR push_bit q 1 else b AND NOT (push_bit q 1)) n
     \<longleftrightarrow> (if n = q \<and> q < 8 then v else bit b n)"
  by (auto simp: bit_simps dest: bit_imp_le_length)

lemma WriteBit_reg:
  assumes "faults s = []"
  shows "bit (regs (snd (I2CDeviceWriteBit reg q v s)) reg) n
           \<longleftrightarrow> (if n = q \<and> q < 8 then v else bit (regs s reg) n)"
  using assms by (simp only: WriteBit_ok(2) fun_upd_same written_bit)

lemma WriteBit_other:
  assumes "faults s = []" and "r \<noteq> reg"
  shows "regs (snd (I2CDeviceWriteBit reg q v s)) r = regs s r"
  using assms by (simp add: WriteBit_ok(2))

lemma flag_after_set:
  assumes "faults s = []"
  shows "fst (I2CDeviceReadBit reg p (snd (I2CDeviceWriteBit reg q v s)))
           = Inr (if p = q \<and> q < 8 then v else bit (regs s reg) p)"
proof -
  have "faults (snd (I2CDeviceWriteBit reg q v s)) = []"
    using assms by (rule WriteBit_ok(4))
  then show ?thesis
    by (simp only: ReadBit_ok(1) WriteBit_reg [OF assms])
qed

text \<open>
  Claim C4. For every register, bit position \<open>b\<close> and current register byte, on a bus
  without faults \<open>writeBit\<close> is one read followed by one write of the same register, in
  which every bit other than \<open>b\<close> keeps its value (and bit \<open>b\<close>, when it is one of the
  eight, becomes the value given); no other register changes. Hence each setter of an
  INT_CFG flag makes its own getter return the value set and leaves what the getters of
  the other flags return as it was. The source has six such flags.
\<close>

theorem C4_writeBit_frame:
  assumes "faults s = []"
  shows "issued s (snd (I2CDeviceWriteBit reg b v s))
           = [TxReadByte reg, TxWriteByte reg (regs (snd (I2CDeviceWriteBit reg b v s)) reg)]
       \<and> (\<forall>n. n \<noteq> b \<longrightarrow>
             bit (regs (snd (I2CDeviceWriteBit reg b v s)) reg) n = bit (regs s reg) n)
       \<and> (b < 8 \<longrightarrow> bit (regs (snd (I2CDeviceWriteBit reg b v s)) reg) b = v)
       \<and> (\<forall>r. r \<noteq> reg \<longrightarrow> regs (snd (I2CDeviceWriteBit reg b v s)) r = regs s r)
       \<and> (\<forall>(p, setter, getter) \<in> set intcfg_flags.
             fst (getter (setter v s)) = Inr v
           \<and> (\<forall>(p', setter', getter') \<in> set intcfg_flags.
                 p' \<noteq> p \<longrightarrow> fst (getter' (setter v s)) = fst (getter' s)))"
proof -
  have t: "issued s (snd (I2CDeviceWriteBit reg b v s))
           = [TxReadByte reg, TxWriteByte reg (regs (snd (I2CDeviceWriteBit reg b v s)) reg)]"
    using assms by (simp add: WriteBit_ok)
  have flags: "(\<forall>(p, setter, getter) \<in> set intcfg_flags.
             fst (getter (setter v s)) = Inr v
           \<and> (\<forall>(p', setter', getter') \<in> set intcfg_flags.
                 p' \<noteq> p \<longrightarrow> fst (getter' (setter v s)) = fst (getter' s)))"
    unfolding intcfg_flags_def
      ITG3200SetInterruptMode_def ITG3200GetInterruptMode_def
      ITG3200SetInterruptDrive_def ITG3200getInterruptDrive_def
      ITG3200SetInterruptLatch_def ITG3200GetInterruptLatch_def
      ITG3200SetInterruptLatchClear_def ITG3200GetInterruptLatchClear_def
      ITG3200SetIntDeviceReadyEnabled_def ITG3200GetIntDeviceReadyEnabled_def
      ITG3200SetIntDataReadyEnabled_def ITG3200GetIntDataReadyEnabled_def
    using assms by (simp add: flag_after_set ReadBit_ok(1) itg_const)
  have a: "\<forall>n. n \<noteq> b \<longrightarrow>
             bit (regs (snd (I2CDeviceWriteBit reg b v s)) reg) n = bit (regs s reg) n"
    by (simp add: WriteBit_reg [OF assms])
  have c: "b < 8 \<longrightarrow> bit (regs (snd (I2CDeviceWriteBit reg b v s)) reg) b = v"
    by (simp add: WriteBit_reg [OF assms])
  have d: "\<forall>r. r \<noteq> reg \<longrightarrow> regs (snd (I2CDeviceWriteBit reg b v s)) r = regs s r"
    by (simp add: WriteBit_other [OF assms])
  from t a c d flags show ?thesis
    by - (intro conjI; assumption)
qed


theorem C4_writeBit_frame_witness:
  "faults (mock_bus (\<lambda>_. 0xA5) []) = []
   \<and> issued (mock_bus (\<lambda>_. 0xA5) [])
         (snd (I2CDeviceWriteBit ITG3200_RA_INT_CFG 6 True (mock_bus (\<lambda>_. 0xA5) [])))
       = [TxReadByte 0x17, TxWriteByte 0x17 0xE5]
   \<and> regs (ITG3200SetInterruptDrive True (mock_bus (\<lambda>_. 0xA5) [])) ITG3200_RA_INT_CFG = 0xE5
   \<and> fst (ITG3200getInterruptDrive (ITG3200SetInterruptDrive True (mock_bus (\<lambda>_. 0xA5) [])))
       = Inr True
   \<and> fst (ITG3200GetInterruptMode (ITG3200SetInterruptDrive True (mock_bus (\<lambda>_. 0xA5) [])))
       = Inr True
   \<and> fst (ITG3200GetInterruptLatchClear (ITG3200SetInterruptDrive True (mock_bus (\<lambda>_. 0xA5) [])))
       = Inr False"
proof -
  let ?m = "mock_bus (\<lambda>_. 0xA5) []"
  have f: "faults ?m = []"
    by (simp add: mock_bus_def)
  have r: "regs ?m = (\<lambda>_. 0xA5)"
    by (simp add: mock_bus_def)
  have w: "regs (ITG3200SetInterruptDrive True ?m) ITG3200_RA_INT_CFG = 0xE5"
    by (simp add: ITG3200SetInterruptDrive_def WriteBit_ok(2) [OF f] r itg_const)
  have g: "fst (ITG3200GetInterruptMode ?m) = Inr True"
      "fst (ITG3200GetInterruptLatchClear ?m) = Inr False"
    by (simp_all add: ITG3200GetInterruptMode_def ITG3200GetInterruptLatchClear_def
        ReadBit_ok(1) [OF f] r itg_const bit_numeral_simps)
  show ?thesis
    using C4_writeBit_frame [OF f, of ITG3200_RA_INT_CFG 6 True] w g
    by (simp add: f intcfg_flags_def ITG3200SetInterruptDrive_def itg_const)
qed

lemma WriteBits_reg:
  assumes "faults s = []"
  shows "bit (regs (snd (I2CDeviceWriteBits reg st len v s)) reg) n
           \<longleftrightarrow> (if field_shift st len \<le> n \<and> n < field_shift st len + len \<and> n < 8
                then bit v (n - field_shift st len) else bit (regs s reg) n)"
  using assms by (simp only: WriteBits_ok(2) fun_upd_same field_written_bit)

lemma WriteBits_other:
  assumes "faults s = []" and "r \<noteq> reg"
  shows "regs (snd (I2CDeviceWriteBits reg st len v s)) r = regs s r"
  using assms by (simp add: WriteBits_ok(2))

lemma WriteBits_issued:
  assumes "faults s = []"
  shows "issued s (snd (I2CDeviceWriteBits reg st len v s))
           = [TxReadByte reg, TxWriteByte reg (regs (snd (I2CDeviceWriteBits reg st len v s)) reg)]"
  using assms by (simp add: WriteBits_ok)

text \<open>
  Claim C8. For every value \<open>v\<close>, the setters of full-scale range, DLPF bandwidth and clock
  source hand \<open>v\<close> to the field write unchecked: on a bus without faults the field write
  reports no error, the read and the write are issued whatever \<open>v\<close> is, and the field
  read back is \<open>v\<close> cut to the field's width (2, 3 and 3 bits), reserved codes
  included.
\<close>

theorem C8_setters_pass_through:
  assumes "faults s = []"
  shows "fst (ITG3200GetFullScaleRange (ITG3200SetFullScaleRange v s)) = Inr (take_bit 2 v)
       \<and> fst (ITG3200GetDLPFBandwidth (ITG3200SetDLPFBandwidth v s)) = Inr (take_bit 3 v)
       \<and> fst (ITG3200GetClockSource (ITG3200SetClockSource v s)) = Inr (take_bit 3 v)
       \<and> issued s (ITG3200SetFullScaleRange v s)
           = [TxReadByte ITG3200_RA_DLPF_FS,
              TxWriteByte ITG3200_RA_DLPF_FS (regs (ITG3200SetFullScaleRange v s) ITG3200_RA_DLPF_FS)]
       \<and> issued s (ITG3200SetDLPFBandwidth v s)
           = [TxReadByte ITG3200_RA_DLPF_FS,
              TxWriteByte ITG3200_RA_DLPF_FS (regs (ITG3200SetDLPFBandwidth v s) ITG3200_RA_DLPF_FS)]
       \<and> issued s (ITG3200SetClockSource v s)
           = [TxReadByte ITG3200_RA_PWR_MGM,
              TxWriteByte ITG3200_RA_PWR_MGM (regs (ITG3200SetClockSource v s) ITG3200_RA_PWR_MGM)]
       \<and> fst (I2CDeviceWriteBits ITG3200_RA_DLPF_FS ITG3200_DF_FS_SEL_BIT
                ITG3200_DF_FS_SEL_LENGTH v s) = Inr ()
       \<and> fst (I2CDeviceWriteBits ITG3200_RA_DLPF_FS ITG3200_DF_DLPF_CFG_BIT
                ITG3200_DF_DLPF_CFG_LENGTH v s) = Inr ()
       \<and> fst (I2CDeviceWriteBits ITG3200_RA_PWR_MGM ITG3200_PWR_CLK_SEL_BIT
                ITG3200_PWR_CLK_SEL_LENGTH v s) = Inr ()"
proof -
  have fs: "fst (ITG3200GetFullScaleRange (ITG3200SetFullScaleRange v s)) = Inr (take_bit 2 v)"
    unfolding ITG3200GetFullScaleRange_def ITG3200SetFullScaleRange_def
    using field_readback [OF assms, of ITG3200_DF_FS_SEL_BIT ITG3200_DF_FS_SEL_LENGTH]
    by (simp add: itg_const)
  have bw: "fst (ITG3200GetDLPFBandwidth (ITG3200SetDLPFBandwidth v s)) = Inr (take_bit 3 v)"
    unfolding ITG3200GetDLPFBandwidth_def ITG3200SetDLPFBandwidth_def
    using field_readback [OF assms, of ITG3200_DF_DLPF_CFG_BIT ITG3200_DF_DLPF_CFG_LENGTH]
    by (simp add: itg_const)
  have cs: "fst (ITG3200GetClockSource (ITG3200SetClockSource v s)) = Inr (take_bit 3 v)"
    unfolding ITG3200GetClockSource_def ITG3200SetClockSource_def
    using field_readback [OF assms, of ITG3200_PWR_CLK_SEL_BIT ITG3200_PWR_CLK_SEL_LENGTH]
    by (simp add: itg_const)
  show ?thesis
    unfolding fs bw cs
    unfolding ITG3200SetFullScaleRange_def ITG3200SetDLPFBandwidth_def ITG3200SetClockSource_def
    using assms by (simp only: WriteBits_issued WriteBits_ok(1) simp_thms)
qed


theorem C8_setters_pass_through_witness:
  "faults (mock_bus (\<lambda>_. 0) []) = []
   \<and> fst (ITG3200GetDLPFBandwidth (ITG3200SetDLPFBandwidth 7 (mock_bus (\<lambda>_. 0) []))) = Inr 7
   \<and> fst (ITG3200GetClockSource (ITG3200SetClockSource 6 (mock_bus (\<lambda>_. 0) []))) = Inr 6
   \<and> fst (ITG3200GetClockSource (ITG3200SetClockSource 7 (mock_bus (\<lambda>_. 0) []))) = Inr 7
   \<and> fst (ITG3200GetFullScaleRange (ITG3200SetFullScaleRange 0 (mock_bus (\<lambda>_. 0) []))) = Inr 0
   \<and> fst (ITG3200GetFullScaleRange (ITG3200SetFullScaleRange 0xFE (mock_bus (\<lambda>_. 0) []))) = Inr 2"
proof -
  have f: "faults (mock_bus (\<lambda>_. 0) []) = []"
    by (simp add: mock_bus_def)
  show ?thesis
    using C8_setters_pass_through [OF f, of 7] C8_setters_pass_through [OF f, of 6]
      C8_setters_pass_through [OF f, of 0] C8_setters_pass_through [OF f, of "0xFE"]
    by (simp add: f)
qed

lemma FS_written:
  assumes "faults s = []"
  shows "bit (regs (ITG3200SetFullScaleRange v s) ITG3200_RA_DLPF_FS) n
           \<longleftrightarrow> (if n = 3 \<or> n = 4 then bit v (n - 3) else bit (regs s ITG3200_RA_DLPF_FS) n)"
  unfolding ITG3200SetFullScaleRange_def
  by (auto simp: WriteBits_reg [OF assms] itg_const field_shift_def)

lemma CLK_written:
  assumes "faults s = []"
  shows "bit (regs (ITG3200SetClockSource v s) ITG3200_RA_PWR_MGM) n
           \<longleftrightarrow> (if n < 3 then bit v n else bit (regs s ITG3200_RA_PWR_MGM) n)"
  unfolding ITG3200SetClockSource_def
  by (auto simp: WriteBits_reg [OF assms] itg_const field_shift_def)

lemma Initialize_ok:
  assumes "faults s = []"
  shows "regs (ITG3200Initialize s)
           = (regs s)(ITG3200_RA_DLPF_FS :=
                        regs (ITG3200SetFullScaleRange ITG3200_FULLSCALE_2000 s) ITG3200_RA_DLPF_FS,
                      ITG3200_RA_PWR_MGM :=
                        regs (ITG3200SetClockSource ITG3200_CLOCK_PLL_XGYRO s) ITG3200_RA_PWR_MGM)"
    and "trace (ITG3200Initialize s)
           = trace s @ [TxReadByte ITG3200_RA_DLPF_FS,
                        TxWriteByte ITG3200_RA_DLPF_FS
                          (regs (ITG3200SetFullScaleRange ITG3200_FULLSCALE_2000 s) ITG3200_RA_DLPF_FS),
                        TxReadByte ITG3200_RA_PWR_MGM,
                        TxWriteByte ITG3200_RA_PWR_MGM
                          (regs (ITG3200SetClockSource ITG3200_CLOCK_PLL_XGYRO s) ITG3200_RA_PWR_MGM)]"
    and "faults (ITG3200Initialize s) = []"
proof -
  let ?s1 = "ITG3200SetFullScaleRange ITG3200_FULLSCALE_2000 s"
  have f1: "faults ?s1 = []"
    unfolding ITG3200SetFullScaleRange_def using assms by (rule WriteBits_ok(4))
  have ne: "ITG3200_RA_PWR_MGM \<noteq> ITG3200_RA_DLPF_FS"
    by (simp add: itg_const)
  have p: "regs ?s1 ITG3200_RA_PWR_MGM = regs s ITG3200_RA_PWR_MGM"
    unfolding ITG3200SetFullScaleRange_def using assms ne by (rule WriteBits_other)
  have r1: "regs ?s1 = (regs s)(ITG3200_RA_DLPF_FS := regs ?s1 ITG3200_RA_DLPF_FS)"
    unfolding ITG3200SetFullScaleRange_def by (simp add: WriteBits_ok(2) [OF assms])
  have t1: "trace ?s1 = trace s @ [TxReadByte ITG3200_RA_DLPF_FS,
                        TxWriteByte ITG3200_RA_DLPF_FS (regs ?s1 ITG3200_RA_DLPF_FS)]"
    unfolding ITG3200SetFullScaleRange_def by (simp add: WriteBits_ok [OF assms])
  have w2: "regs (ITG3200SetClockSource v ?s1) ITG3200_RA_PWR_MGM
              = regs (ITG3200SetClockSource v s) ITG3200_RA_PWR_MGM" for v
    unfolding ITG3200SetClockSource_def
    by (simp add: WriteBits_ok(2) [OF f1] WriteBits_ok(2) [OF assms] p)
  have r2: "regs (ITG3200SetClockSource v ?s1)
              = (regs ?s1)(ITG3200_RA_PWR_MGM := regs (ITG3200SetClockSource v ?s1) ITG3200_RA_PWR_MGM)" for v
    unfolding ITG3200SetClockSource_def by (simp add: WriteBits_ok(2) [OF f1])
  have t2: "trace (ITG3200SetClockSource v ?s1)
              = trace ?s1 @ [TxReadByte ITG3200_RA_PWR_MGM,
                   TxWriteByte ITG3200_RA_PWR_MGM (regs (ITG3200SetClockSource v ?s1) ITG3200_RA_PWR_MGM)]" for v
    unfolding ITG3200SetClockSource_def by (simp add: WriteBits_ok [OF f1])
  show "regs (ITG3200Initialize s)
           = (regs s)(ITG3200_RA_DLPF_FS := regs ?s1 ITG3200_RA_DLPF_FS,
                      ITG3200_RA_PWR_MGM :=
                        regs (ITG3200SetClockSource ITG3200_CLOCK_PLL_XGYRO s) ITG3200_RA_PWR_MGM)"
    unfolding ITG3200Initialize_def
    by (subst r2, subst r1, simp only: w2)
  show "trace (ITG3200Initialize s)
           = trace s @ [TxReadByte ITG3200_RA_DLPF_FS,
                        TxWriteByte ITG3200_RA_DLPF_FS (regs ?s1 ITG3200_RA_DLPF_FS),
                        TxReadByte ITG3200_RA_PWR_MGM,
                        TxWriteByte ITG3200_RA_PWR_MGM
                          (regs (ITG3200SetClockSource ITG3200_CLOCK_PLL_XGYRO s) ITG3200_RA_PWR_MGM)]"
    unfolding ITG3200Initialize_def
    by (simp add: t2 t1 w2)
  show "faults (ITG3200Initialize s) = []"
    unfolding ITG3200Initialize_def ITG3200SetClockSource_def
    using f1 by (rule WriteBits_ok(4))
qed

text \<open>
  Claim C3. From any register contents, on a bus without faults, initialization issues
  exactly four transactions: the read and the write of DLPF_FS, then the read and the
  write of PWR_MGM. Afterwards the full-scale field reads 3 and the clock-source field
  reads 1, every other bit of the two registers is as before, and no other register has
  changed.
\<close>

theorem C3_initialize:
  assumes "faults s = []"
  shows "issued s (ITG3200Initialize s)
           = [TxReadByte ITG3200_RA_DLPF_FS,
              TxWriteByte ITG3200_RA_DLPF_FS (regs (ITG3200Initialize s) ITG3200_RA_DLPF_FS),
              TxReadByte ITG3200_RA_PWR_MGM,
              TxWriteByte ITG3200_RA_PWR_MGM (regs (ITG3200Initialize s) ITG3200_RA_PWR_MGM)]
       \<and> fst (ITG3200GetFullScaleRange (ITG3200Initialize s)) = Inr 3
       \<and> fst (ITG3200GetClockSource (ITG3200Initialize s)) = Inr 1
       \<and> (\<forall>n. n \<noteq> 3 \<and> n \<noteq> 4 \<longrightarrow>
             bit (regs (ITG3200Initialize s) ITG3200_RA_DLPF_FS) n
               = bit (regs s ITG3200_RA_DLPF_FS) n)
       \<and> (\<forall>n. 3 \<le> n \<longrightarrow>
             bit (regs (ITG3200Initialize s) ITG3200_RA_PWR_MGM) n
               = bit (regs s ITG3200_RA_PWR_MGM) n)
       \<and> (\<forall>r. r \<noteq> ITG3200_RA_DLPF_FS \<and> r \<noteq> ITG3200_RA_PWR_MGM \<longrightarrow>
             regs (ITG3200Initialize s) r = regs s r)"
proof -
  note I = Initialize_ok [OF assms]
  have ne: "ITG3200_RA_PWR_MGM \<noteq> ITG3200_RA_DLPF_FS"
    by (simp add: itg_const)
  have rd: "regs (ITG3200Initialize s) ITG3200_RA_DLPF_FS
              = regs (ITG3200SetFullScaleRange ITG3200_FULLSCALE_2000 s) ITG3200_RA_DLPF_FS"
    using ne by (simp add: I(1))
  have rp: "regs (ITG3200Initialize s) ITG3200_RA_PWR_MGM
              = regs (ITG3200SetClockSource ITG3200_CLOCK_PLL_XGYRO s) ITG3200_RA_PWR_MGM"
    by (simp add: I(1))
  have t: "issued s (ITG3200Initialize s)
           = [TxReadByte ITG3200_RA_DLPF_FS,
              TxWriteByte ITG3200_RA_DLPF_FS (regs (ITG3200Initialize s) ITG3200_RA_DLPF_FS),
              TxReadByte ITG3200_RA_PWR_MGM,
              TxWriteByte ITG3200_RA_PWR_MGM (regs (ITG3200Initialize s) ITG3200_RA_PWR_MGM)]"
    unfolding rd rp by (rule issued_append) (rule I(2))
  have fs: "fst (ITG3200GetFullScaleRange (ITG3200Initialize s)) = Inr 3"
  proof -
    have "fst (ITG3200GetFullScaleRange (ITG3200Initialize s))
            = fst (ITG3200GetFullScaleRange (ITG3200SetFullScaleRange ITG3200_FULLSCALE_2000 s))"
      unfolding ITG3200GetFullScaleRange_def ITG3200SetFullScaleRange_def
      using rd
      by (simp add: ReadBits_ok(1) [OF I(3)] ReadBits_ok(1) [OF WriteBits_ok(4) [OF assms]]
          ITG3200SetFullScaleRange_def)
    also have "\<dots> = Inr (take_bit 2 ITG3200_FULLSCALE_2000)"
      unfolding ITG3200GetFullScaleRange_def ITG3200SetFullScaleRange_def
      using field_readback [OF assms, of ITG3200_DF_FS_SEL_BIT ITG3200_DF_FS_SEL_LENGTH]
      by (simp add: itg_const)
    finally show ?thesis by (simp add: itg_const)
  qed
  have cs: "fst (ITG3200GetClockSource (ITG3200Initialize s)) = Inr 1"
  proof -
    have "fst (ITG3200GetClockSource (ITG3200Initialize s))
            = fst (ITG3200GetClockSource (ITG3200SetClockSource ITG3200_CLOCK_PLL_XGYRO s))"
      unfolding ITG3200GetClockSource_def ITG3200SetClockSource_def
      using rp
      by (simp add: ReadBits_ok(1) [OF I(3)] ReadBits_ok(1) [OF WriteBits_ok(4) [OF assms]]
          ITG3200SetClockSource_def)
    also have "\<dots> = Inr (take_bit 3 ITG3200_CLOCK_PLL_XGYRO)"
      unfolding ITG3200GetClockSource_def ITG3200SetClockSource_def
      using field_readback [OF assms, of ITG3200_PWR_CLK_SEL_BIT ITG3200_PWR_CLK_SEL_LENGTH]
      by (simp add: itg_const)
    finally show ?thesis by (simp add: itg_const)
  qed
  have a: "\<forall>n. n \<noteq> 3 \<and> n \<noteq> 4 \<longrightarrow>
             bit (regs (ITG3200Initialize s) ITG3200_RA_DLPF_FS) n
               = bit (regs s ITG3200_RA_DLPF_FS) n"
    by (simp add: rd FS_written [OF assms])
  have b: "\<forall>n. 3 \<le> n \<longrightarrow>
             bit (regs (ITG3200Initialize s) ITG3200_RA_PWR_MGM) n
               = bit (regs s ITG3200_RA_PWR_MGM) n"
    by (simp add: rp CLK_written [OF assms])
  have c: "\<forall>r. r \<noteq> ITG3200_RA_DLPF_FS \<and> r \<noteq> ITG3200_RA_PWR_MGM \<longrightarrow>
             regs (ITG3200Initialize s) r = regs s r"
    by (simp add: I(1))
  from t fs cs a b c show ?thesis
    by - (intro conjI; assumption)
qed

theorem C3_initialize_witness:
  "faults (mock_bus (\<lambda>_. 0xA5) []) = []
   \<and> issued (mock_bus (\<lambda>_. 0xA5) []) (ITG3200Initialize (mock_bus (\<lambda>_. 0xA5) []))
       = [TxReadByte 0x16, TxWriteByte 0x16 0xBD, TxReadByte 0x3E, TxWriteByte 0x3E 0xA1]
   \<and> regs (ITG3200Initialize (mock_bus (\<lambda>_. 0xA5) [])) ITG3200_RA_INT_CFG = 0xA5"
proof -
  let ?m = "mock_bus (\<lambda>_. 0xA5) []"
  have f: "faults ?m = []"
    by (simp add: mock_bus_def)
  have r: "regs ?m = (\<lambda>_. 0xA5)"
    by (simp add: mock_bus_def)
  have w: "regs (ITG3200Initialize ?m) ITG3200_RA_DLPF_FS = 0xBD"
      "regs (ITG3200Initialize ?m) ITG3200_RA_PWR_MGM = 0xA1"
      "regs (ITG3200Initialize ?m) ITG3200_RA_INT_CFG = 0xA5"
    by (simp_all add: Initialize_ok(1) [OF f] ITG3200SetFullScaleRange_def
        ITG3200SetClockSource_def WriteBits_ok(2) [OF f] r itg_const field_mask_def
        field_shift_def)
  show ?thesis
    using C3_initialize [OF f] w
    by (simp add: f itg_const)
qed

section \<open>Transactions issued by the operations\<close>

lemmas driver_defs =
  ITG3200GetDeviceID_def ITG3200SetDeviceID_def ITG3200GetRate_def
  ITG3200SetRate_def ITG3200GetFullScaleRange_def ITG3200SetFullScaleRange_def
  ITG3200GetDLPFBandwidth_def ITG3200SetDLPFBandwidth_def ITG3200GetInterruptMode_def
  ITG3200SetInterruptMode_def ITG3200getInterruptDrive_def ITG3200SetInterruptDrive_def
  ITG3200GetInterruptLatch_def ITG3200SetInterruptLatch_def ITG3200GetInterruptLatchClear_def
  ITG3200SetInterruptLatchClear_def ITG3200GetIntDeviceReadyEnabled_def ITG3200SetIntDeviceReadyEnabled_def
  ITG3200GetIntDataReadyEnabled_def ITG3200SetIntDataReadyEnabled_def ITG3200GetIntDeviceReadyStatus_def
  ITG3200GetIntDataReadyStatus_def ITG3200GetTemperature_def ITG3200GetRotation_def
  ITG3200GetRotationX_def ITG3200GetRotationY_def ITG3200GetRotationZ_def
  ITG3200Reset_def ITG3200GetSleepEnabled_def ITG3200SetSleepEnabled_def
  ITG3200GetStandbyXEnabled_def ITG3200SetStandbyXEnabled_def ITG3200GetStandbyYEnabled_def
  ITG3200SetStandbyYEnabled_def ITG3200GetStandbyZEnabled_def ITG3200SetStandbyZEnabled_def
  ITG3200GetClockSource_def ITG3200SetClockSource_def ITG3200Initialize_def

lemma ReadByte_any:
  "I2CDeviceReadByte reg s
     = (if next_fails s then Inl BusTransactionFailure else Inr (regs s reg),
        issue (TxReadByte reg) s)"
  by (simp add: I2CDeviceReadByte_def bus_readByte_def)

lemma ReadBit_any:
  "I2CDeviceReadBit reg q s
     = (if next_fails s then Inl BusTransactionFailure else Inr (bit (regs s reg) q),
        issue (TxReadByte reg) s)"
  by (simp add: I2CDeviceReadBit_def bus_readByte_def test_bit_eq)

lemma ReadBits_any:
  "I2CDeviceReadBits reg st len s
     = (if next_fails s then Inl BusTransactionFailure
        else Inr (drop_bit (field_shift st len) (regs s reg) AND (2 ^ len - 1)),
        issue (TxReadByte reg) s)"
  by (simp add: I2CDeviceReadBits_def bus_readByte_def)

lemma ReadBytes_any:
  "I2CDeviceReadBytes reg n data s
     = (if next_fails s then (Inl BusTransactionFailure, data, issue (TxReadBytes reg n) s)
        else (Inr (), map (\<lambda>i. regs s (reg + of_nat i)) [0..<n] @ drop n data,
              issue (TxReadBytes reg n) s))"
  by (simp add: I2CDeviceReadBytes_def bus_readBytes_def)

lemma WriteByte_any:
  "snd (I2CDeviceWriteByte reg v s)
     = (if next_fails s then issue (TxWriteByte reg v) s
        else (issue (TxWriteByte reg v) s)\<lparr>regs := (regs s)(reg := v)\<rparr>)"
  by (simp add: I2CDeviceWriteByte_def bus_writeByte_def)

lemma WriteBit_any:
  "snd (I2CDeviceWriteBit reg q v s)
     = (let w = (if v then regs s reg OR push_bit q 1 else regs s reg AND NOT (push_bit q 1));
            s1 = issue (TxReadByte reg) s
        in if next_fails s then s1
           else if next_fails s1 then issue (TxWriteByte reg w) s1
           else (issue (TxWriteByte reg w) s1)\<lparr>regs := (regs s)(reg := w)\<rparr>)"
  by (simp add: I2CDeviceWriteBit_def bus_readByte_def bus_writeByte_def Let_def)

lemma WriteBits_any:
  "snd (I2CDeviceWriteBits reg st len v s)
     = (let w = (regs s reg AND NOT (field_mask st len))
                  OR (push_bit (field_shift st len) v AND field_mask st len);
            s1 = issue (TxReadByte reg) s
        in if next_fails s then s1
           else if next_fails s1 then issue (TxWriteByte reg w) s1
           else (issue (TxWriteByte reg w) s1)\<lparr>regs := (regs s)(reg := w)\<rparr>)"
  by (simp add: I2CDeviceWriteBits_def bus_readByte_def bus_writeByte_def Let_def)

lemmas accessor_any =
  ReadByte_any ReadBit_any ReadBits_any ReadBytes_any WriteByte_any WriteBit_any WriteBits_any

lemma getter_frame:
  assumes "is_getter op"
  shows "regs (snd (call op s)) = regs s \<and> list_all is_read (issued s (snd (call op s)))"
  using assms
  by (cases op) (simp_all add: driver_defs accessor_any issued_def)


text \<open>
  Claim C10. Every get operation of the driver, whatever the bus does, issues read
  transactions only and leaves every device register as it was.
\<close>

theorem C10_getters_only_read:
  assumes "is_getter op"
  shows "regs (snd (call op s)) = regs s \<and> list_all is_read (issued s (snd (call op s)))"
  using assms by (rule getter_frame)

theorem C10_getters_only_read_witness:
  "is_getter OpGetRotation
   \<and> regs (snd (call OpGetRotation (mock_bus (\<lambda>_. 0xA5) []) :: 32 word retval \<times> machine))
       = regs (mock_bus (\<lambda>_. 0xA5) [])
   \<and> issued (mock_bus (\<lambda>_. 0xA5) [])
         (snd (call OpGetRotation (mock_bus (\<lambda>_. 0xA5) []) :: 32 word retval \<times> machine))
       = [TxReadBytes 0x1D 6]
   \<and> is_getter OpGetClockSource
   \<and> issued (mock_bus (\<lambda>_. 0xA5) [])
         (snd (call OpGetClockSource (mock_bus (\<lambda>_. 0xA5) []) :: 32 word retval \<times> machine))
       = [TxReadByte 0x3E]"
proof -
  let ?m = "mock_bus (\<lambda>_. 0xA5) []"
  have g: "is_getter OpGetRotation" "is_getter OpGetClockSource"
    by simp_all
  have r: "regs (snd (call OpGetRotation ?m :: 32 word retval \<times> machine)) = regs ?m"
    by (rule C10_getters_only_read [OF g(1), THEN conjunct1])
  have t: "issued ?m (snd (call OpGetRotation ?m :: 32 word retval \<times> machine))
             = [TxReadBytes 0x1D 6]"
      "issued ?m (snd (call OpGetClockSource ?m :: 32 word retval \<times> machine))
             = [TxReadByte 0x3E]"
    by (simp_all add: ITG3200GetRotation_def ITG3200GetClockSource_def accessor_any
        issued_def itg_const)
  show ?thesis
    using g r t by simp
qed

lemma register_map_set:
  "set register_map = {0x00, 0x15, 0x16, 0x17, 0x1A, 0x1B, 0x1C, 0x1D, 0x1E, 0x1F, 0x20,
                       0x21, 0x22, 0x3E}"
  by (simp add: register_map_def itg_const)

lemma addressed_call: "set (addressed s (snd (call op s))) \<subseteq> set register_map"
  by (cases op)
    (simp_all add: driver_defs accessor_any issued_def addressed_def Let_def upt2 upt6
      register_map_set itg_const)


text \<open>
  Claim C9. The bus bytes are 0xD0 (write) and 0xD1 (read), both of 7-bit address 0x68; the
  register addresses are WHO_AM_I 0x00, SMPLRT_DIV 0x15, DLPF_FS 0x16, INT_CFG 0x17,
  INT_STATUS 0x1A, TEMP_OUT_H 0x1B, TEMP_OUT_L 0x1C, GYRO_XOUT_H to GYRO_ZOUT_L 0x1D to
  0x22, PWR_MGM 0x3E; and every transaction issued by any of the 39 driver operations, in
  any state, addresses registers of this map only.
\<close>

theorem C9_protocol_constants:
  "ITG3200_ADDRESS_WRITE = 0xD0 \<and> ITG3200_ADDRESS_READ = 0xD1
   \<and> drop_bit 1 ITG3200_ADDRESS_WRITE = (0x68 :: byte)
   \<and> drop_bit 1 ITG3200_ADDRESS_READ = (0x68 :: byte)
   \<and> ITG3200_RA_WHO_AM_I = 0x00 \<and> ITG3200_RA_SMPLRT_DIV = 0x15
   \<and> ITG3200_RA_DLPF_FS = 0x16 \<and> ITG3200_RA_INT_CFG = 0x17
   \<and> ITG3200_RA_INT_STATUS = 0x1A
   \<and> ITG3200_RA_TEMP_OUT_H = 0x1B \<and> ITG3200_RA_TEMP_OUT_L = 0x1C
   \<and> [ITG3200_RA_GYRO_XOUT_H, ITG3200_RA_GYRO_XOUT_L, ITG3200_RA_GYRO_YOUT_H,
       ITG3200_RA_GYRO_YOUT_L, ITG3200_RA_GYRO_ZOUT_H, ITG3200_RA_GYRO_ZOUT_L]
        = [0x1D, 0x1E, 0x1F, 0x20, 0x21, 0x22]
   \<and> ITG3200_RA_PWR_MGM = 0x3E
   \<and> set (addressed s (snd (call op s))) \<subseteq> set register_map"
  using addressed_call [of s op] by (simp add: itg_const)

theorem C9_protocol_constants_witness:
  "addressed (mock_bus (\<lambda>_. 0) [])
     (snd (call OpGetRotation (mock_bus (\<lambda>_. 0) []) :: 32 word retval \<times> machine))
     = [0x1D, 0x1E, 0x1F, 0x20, 0x21, 0x22]
   \<and> set [0x1D, 0x1E, 0x1F, 0x20, 0x21, 0x22 :: byte] \<subseteq> set register_map
   \<and> addressed (mock_bus (\<lambda>_. 0) [])
       (snd (call OpInitialize (mock_bus (\<lambda>_. 0) []) :: 32 word retval \<times> machine))
     = [0x16, 0x16, 0x3E, 0x3E]"
proof -
  let ?m = "mock_bus (\<lambda>_. 0) []"
  have f: "faults ?m = []"
    by (simp add: mock_bus_def)
  have a: "addressed ?m (snd (call OpGetRotation ?m :: 32 word retval \<times> machine))
             = [0x1D, 0x1E, 0x1F, 0x20, 0x21, 0x22]"
    by (simp add: ITG3200GetRotation_def accessor_any issued_def addressed_def upt6 itg_const)
  have b: "addressed ?m (snd (call OpInitialize ?m :: 32 word retval \<times> machine))
             = [0x16, 0x16, 0x3E, 0x3E]"
    using Initialize_ok(2) [OF f]
    by (simp add: addressed_def itg_const)
  have "set (addressed ?m (snd (call OpGetRotation ?m :: 32 word retval \<times> machine)))
          \<subseteq> set register_map"
    by (rule C9_protocol_constants [THEN conjunct2, THEN conjunct2, THEN conjunct2,
          THEN conjunct2, THEN conjunct2, THEN conjunct2, THEN conjunct2, THEN conjunct2,
          THEN conjunct2, THEN conjunct2, THEN conjunct2, THEN conjunct2, THEN conjunct2])
  with a b show ?thesis
    by simp
qed

text \<open>
  Claim C7. The combined rotation read issues one transaction, a 6-byte burst at
  GYRO_XOUT_H, and returns X, Y, Z decoded from bytes 0-1, 2-3 and 4-5 of the buffer; each
  single-axis read issues one transaction, a 2-byte burst at its own high register. When
  the burst succeeds the buffer holds the registers read, in register order.
\<close>

theorem C7_rotation_bursts:
  "issued s (snd (ITG3200GetRotation s)) = [TxReadBytes ITG3200_RA_GYRO_XOUT_H 6]
   \<and> issued s (snd (ITG3200GetRotationX s)) = [TxReadBytes ITG3200_RA_GYRO_XOUT_H 2]
   \<and> issued s (snd (ITG3200GetRotationY s)) = [TxReadBytes ITG3200_RA_GYRO_YOUT_H 2]
   \<and> issued s (snd (ITG3200GetRotationZ s)) = [TxReadBytes ITG3200_RA_GYRO_ZOUT_H 2]
   \<and> fst (ITG3200GetRotation s)
       = (push_bit 8 (ucast (ITG3200Buffer (snd (ITG3200GetRotation s)) ! 0))
            OR ucast (ITG3200Buffer (snd (ITG3200GetRotation s)) ! 1),
          push_bit 8 (ucast (ITG3200Buffer (snd (ITG3200GetRotation s)) ! 2))
            OR ucast (ITG3200Buffer (snd (ITG3200GetRotation s)) ! 3),
          push_bit 8 (ucast (ITG3200Buffer (snd (ITG3200GetRotation s)) ! 4))
            OR ucast (ITG3200Buffer (snd (ITG3200GetRotation s)) ! 5))
   \<and> (faults s = [] \<longrightarrow>
         take 6 (ITG3200Buffer (snd (ITG3200GetRotation s)))
           = [regs s ITG3200_RA_GYRO_XOUT_H, regs s ITG3200_RA_GYRO_XOUT_L,
              regs s ITG3200_RA_GYRO_YOUT_H, regs s ITG3200_RA_GYRO_YOUT_L,
              regs s ITG3200_RA_GYRO_ZOUT_H, regs s ITG3200_RA_GYRO_ZOUT_L]
       \<and> take 2 (ITG3200Buffer (snd (ITG3200GetRotationX s)))
           = [regs s ITG3200_RA_GYRO_XOUT_H, regs s ITG3200_RA_GYRO_XOUT_L]
       \<and> take 2 (ITG3200Buffer (snd (ITG3200GetRotationY s)))
           = [regs s ITG3200_RA_GYRO_YOUT_H, regs s ITG3200_RA_GYRO_YOUT_L]
       \<and> take 2 (ITG3200Buffer (snd (ITG3200GetRotationZ s)))
           = [regs s ITG3200_RA_GYRO_ZOUT_H, regs s ITG3200_RA_GYRO_ZOUT_L])"
  by (simp add: ITG3200GetRotation_def ITG3200GetRotationX_def ITG3200GetRotationY_def
      ITG3200GetRotationZ_def ReadBytes_any issued_def upt2 upt6 itg_const)

theorem C7_rotation_bursts_witness:
  "faults (mock_bus ((\<lambda>_. 0)(0x1D := 1, 0x1E := 2, 0x1F := 3, 0x20 := 4, 0x21 := 5, 0x22 := 6)) [])
     = []
   \<and> issued (mock_bus ((\<lambda>_. 0)(0x1D := 1, 0x1E := 2, 0x1F := 3, 0x20 := 4, 0x21 := 5, 0x22 := 6)) [])
        (snd (ITG3200GetRotation
          (mock_bus ((\<lambda>_. 0)(0x1D := 1, 0x1E := 2, 0x1F := 3, 0x20 := 4, 0x21 := 5, 0x22 := 6)) [])
          :: (32 word \<times> 32 word \<times> 32 word) \<times> machine))
       = [TxReadBytes 0x1D 6]
   \<and> ITG3200Buffer (snd (ITG3200GetRotation
          (mock_bus ((\<lambda>_. 0)(0x1D := 1, 0x1E := 2, 0x1F := 3, 0x20 := 4, 0x21 := 5, 0x22 := 6)) [])
          :: (32 word \<times> 32 word \<times> 32 word) \<times> machine))
       = [1, 2, 3, 4, 5, 6]
   \<and> fst (ITG3200GetRotation
          (mock_bus ((\<lambda>_. 0)(0x1D := 1, 0x1E := 2, 0x1F := 3, 0x20 := 4, 0x21 := 5, 0x22 := 6)) []))
       = (0x0102 :: 32 word, 0x0304 :: 32 word, 0x0506 :: 32 word)"
proof -
  let ?m = "mock_bus ((\<lambda>_. 0)(0x1D := 1, 0x1E := 2, 0x1F := 3, 0x20 := 4, 0x21 := 5, 0x22 := 6)) []"
  have f: "faults ?m = []"
    by (simp add: mock_bus_def)
  have t: "issued ?m (snd (ITG3200GetRotation ?m :: (32 word \<times> 32 word \<times> 32 word) \<times> machine))
             = [TxReadBytes ITG3200_RA_GYRO_XOUT_H 6]"
    by (rule C7_rotation_bursts [THEN conjunct1])
  have b: "ITG3200Buffer (snd (ITG3200GetRotation ?m :: (32 word \<times> 32 word \<times> 32 word) \<times> machine))
             = [1, 2, 3, 4, 5, 6]"
    by (simp add: ITG3200GetRotation_def ReadBytes_any f upt6 itg_const)
      (simp add: mock_bus_def)
  have r: "fst (ITG3200GetRotation ?m) = (0x0102 :: 32 word, 0x0304 :: 32 word, 0x0506 :: 32 word)"
    by (simp add: rot_ok [OF f] itg_const) (simp add: mock_bus_def)
  show ?thesis
    using t b r
    by (simp add: f itg_const)
qed

section \<open>Bus failures\<close>

lemma next_fails_issue:
  "next_fails (issue t s) = (case tl (faults s) of [] \<Rightarrow> False | f # _ \<Rightarrow> f)"
  by (simp add: next_fails_def)

lemma faulted_one:
  "trace s' = trace s @ [t] \<Longrightarrow> faulted s s' = next_fails s"
  by (cases "faults s") (simp_all add: faulted_def next_fails_def)

lemma faulted_two:
  "trace s' = trace s @ [t, u] \<Longrightarrow> faulted s s' = (next_fails s \<or> next_fails (issue t s))"
proof (cases "faults s")
  case Nil
  then show ?thesis by (simp add: faulted_def next_fails_def)
next
  case (Cons f fs)
  assume "trace s' = trace s @ [t, u]"
  with Cons show ?thesis
    by (cases fs) (auto simp: faulted_def next_fails_def numeral_2_eq_2)
qed

lemma run_length:
  assumes "op \<noteq> OpInitialize"
  shows "length (issued s (snd (call op s))) \<le> 2
       \<and> (next_fails s \<longrightarrow> length (issued s (snd (call op s))) = 1)"
  using assms
  by (cases op) (simp_all add: driver_defs accessor_any issued_def Let_def)

lemma failed_read_no_write:
  assumes "op \<noteq> OpInitialize" and "\<forall>v. op \<noteq> OpSetRate v" and "next_fails s"
  shows "list_all is_read (issued s (snd (call op s)))"
  using assms
  by (cases op) (simp_all add: driver_defs accessor_any issued_def Let_def)

lemma setter_void: "is_setter op \<Longrightarrow> fst (call op s) = RVoid"
  by (cases op) simp_all

lemma burst_decodes_buffer:
  assumes "is_burst_read op"
  shows "fst (call op s) = decoded_from op (ITG3200Buffer (snd (call op s)))"
  using assms
  by (cases op) (simp_all add: driver_defs ReadBytes_any)

lemma burst_failed_buffer:
  assumes "is_burst_read op" and "next_fails s"
  shows "ITG3200Buffer (snd (call op s)) = ITG3200Buffer s"
  using assms
  by (cases op) (simp_all add: driver_defs ReadBytes_any)


lemma WriteByte_faulted:
  assumes "faulted s (snd (I2CDeviceWriteByte reg v s))"
  shows "regs (snd (I2CDeviceWriteByte reg v s)) = regs s"
proof (cases "next_fails s")
  case True
  then show ?thesis by (simp add: WriteByte_any)
next
  case False
  have "trace (snd (I2CDeviceWriteByte reg v s)) = trace s @ [TxWriteByte reg v]"
    by (simp add: WriteByte_any)
  from faulted_one [OF this] assms False show ?thesis by simp
qed

lemma WriteBit_faulted:
  assumes "faulted s (snd (I2CDeviceWriteBit reg q v s))"
  shows "regs (snd (I2CDeviceWriteBit reg q v s)) = regs s"
proof (cases "next_fails s \<or> next_fails (issue (TxReadByte reg) s)")
  case True
  then show ?thesis by (auto simp: WriteBit_any Let_def)
next
  case False
  then have "trace (snd (I2CDeviceWriteBit reg q v s))
      = trace s @ [TxReadByte reg,
                   TxWriteByte reg (if v then regs s reg OR push_bit q 1
                                    else regs s reg AND NOT (push_bit q 1))]"
    by (simp add: WriteBit_any Let_def)
  from faulted_two [OF this] assms False show ?thesis by simp
qed

lemma WriteBits_faulted:
  assumes "faulted s (snd (I2CDeviceWriteBits reg st len v s))"
  shows "regs (snd (I2CDeviceWriteBits reg st len v s)) = regs s"
proof (cases "next_fails s \<or> next_fails (issue (TxReadByte reg) s)")
  case True
  then show ?thesis by (auto simp: WriteBits_any Let_def)
next
  case False
  then have "trace (snd (I2CDeviceWriteBits reg st len v s))
      = trace s @ [TxReadByte reg,
                   TxWriteByte reg ((regs s reg AND NOT (field_mask st len))
                     OR (push_bit (field_shift st len) v AND field_mask st len))]"
    by (simp add: WriteBits_any Let_def)
  from faulted_two [OF this] assms False show ?thesis by simp
qed

lemma faulted_frame:
  assumes "op \<noteq> OpInitialize" and "faulted s (snd (call op s))"
  shows "regs (snd (call op s)) = regs s"
  using assms
  by (cases op)
    (simp_all add: driver_defs ReadByte_any ReadBit_any ReadBits_any ReadBytes_any
      WriteByte_faulted WriteBit_faulted WriteBits_faulted)

text \<open>
  Claim C2 says that a failed bus transaction reaches the caller as an error result of the
  operation. It does not for the burst reads and the setters: with the next transaction
  failing, the burst read inside the temperature read fails, yet the temperature read
  returns 0x1234, decoded from what the buffer held before, which is also what it returns
  after a successful read of the bytes 0x12, 0x34; and the rate setter, whose write fails
  and stores nothing, returns nothing, as it does when the write succeeds.
\<close>

theorem C2_counterexample:
  "fst (I2CDeviceReadBytes ITG3200_RA_TEMP_OUT_H 2 (ITG3200Buffer stale_machine) stale_machine)
     = Inl BusTransactionFailure
   \<and> fst (ITG3200GetTemperature stale_machine) = (0x1234 :: 32 word)
   \<and> fst (ITG3200GetTemperature reading_machine) = (0x1234 :: 32 word)
   \<and> fst (I2CDeviceWriteByte ITG3200_RA_SMPLRT_DIV 7 stale_machine) = Inl BusTransactionFailure
   \<and> regs (ITG3200SetRate 7 stale_machine) ITG3200_RA_SMPLRT_DIV = 0xFF
   \<and> fst (call (OpSetRate 7) stale_machine) = (RVoid :: 32 word retval)
   \<and> fst (call (OpSetRate 7) reading_machine) = (RVoid :: 32 word retval)"
  by (simp add: stale_machine_def reading_machine_def ITG3200GetTemperature_def
      ITG3200SetRate_def I2CDeviceReadBytes_def bus_readBytes_def I2CDeviceWriteByte_def
      bus_writeByte_def next_fails_def upt2 itg_const)

text \<open>
  Claim C2, as the code has it. No get, set or read operation retries: it issues at most
  two transactions, exactly one when its first transaction fails (so after a failed read
  of a read-modify-write no write is issued), and it changes no register when one of its
  transactions fails. A setter returns nothing. A burst read returns what it decodes from
  \<open>ITG3200Buffer\<close>, and a failed burst leaves that buffer as it was.
\<close>

theorem C2_failures_not_reported:
  assumes "op \<noteq> OpInitialize"
  shows "length (issued s (snd (call op s))) \<le> 2
       \<and> (next_fails s \<longrightarrow> length (issued s (snd (call op s))) = 1)
       \<and> (next_fails s \<and> (\<forall>v. op \<noteq> OpSetRate v) \<longrightarrow>
             list_all is_read (issued s (snd (call op s))))
       \<and> (faulted s (snd (call op s)) \<longrightarrow> regs (snd (call op s)) = regs s)
       \<and> (is_setter op \<longrightarrow> fst (call op s) = RVoid)
       \<and> (is_burst_read op \<longrightarrow>
             fst (call op s) = decoded_from op (ITG3200Buffer (snd (call op s))))
       \<and> (is_burst_read op \<and> next_fails s \<longrightarrow>
             ITG3200Buffer (snd (call op s)) = ITG3200Buffer s)"
  using run_length [OF assms, of s] failed_read_no_write [OF assms, of s]
    faulted_frame [OF assms, of s] setter_void [of op s]
    burst_decodes_buffer [of op s] burst_failed_buffer [of op s]
  by blast

theorem C2_failures_not_reported_witness:
  "OpGetTemperature \<noteq> OpInitialize \<and> OpSetClockSource 1 \<noteq> OpInitialize
   \<and> next_fails stale_machine
   \<and> call OpGetTemperature stale_machine
       = (RInt (0x1234 :: 32 word),
          stale_machine\<lparr>faults := [], trace := [TxReadBytes 0x1B 2]\<rparr>)
   \<and> call (OpSetClockSource 1) stale_machine
       = (RVoid :: 32 word retval,
          stale_machine\<lparr>faults := [], trace := [TxReadByte 0x3E]\<rparr>)"
proof -
  have n: "next_fails stale_machine"
    by (simp add: next_fails_def stale_machine_def)
  have c: "call OpGetTemperature stale_machine
       = (RInt (0x1234 :: 32 word),
          stale_machine\<lparr>faults := [], trace := [TxReadBytes 0x1B 2]\<rparr>)"
    "call (OpSetClockSource 1) stale_machine
       = (RVoid :: 32 word retval,
          stale_machine\<lparr>faults := [], trace := [TxReadByte 0x3E]\<rparr>)"
    by (simp_all add: ITG3200GetTemperature_def ITG3200SetClockSource_def ReadBytes_any
        WriteBits_any n Let_def itg_const)
      (simp_all add: stale_machine_def issue_def)
  have d: "OpGetTemperature \<noteq> OpInitialize" "OpSetClockSource 1 \<noteq> OpInitialize"
    by simp_all
  have "length (issued stale_machine
                 (snd (call OpGetTemperature stale_machine :: 32 word retval \<times> machine))) \<le> 2"
    by (rule C2_failures_not_reported [OF d(1), THEN conjunct1])
  moreover have "length (issued stale_machine
                 (snd (call (OpSetClockSource 1) stale_machine :: 32 word retval \<times> machine))) \<le> 2"
    by (rule C2_failures_not_reported [OF d(2), THEN conjunct1])
  ultimately show ?thesis
    using n c d by simp
qed

section \<open>Bit-field descriptors of the register map\<close>

text \<open>
  Claim C6 asks position + width \<open>\<le>\<close> 8 of every descriptor, the position being that of the
  most significant bit. The device-ID field of WHO_AM_I has position 6 and width 6.
\<close>

theorem C6_counterexample:
  "(ITG3200_RA_WHO_AM_I, ITG3200_DEVID_BIT, ITG3200_DEVID_LENGTH) \<in> set descriptors
   \<and> ITG3200_DEVID_BIT + ITG3200_DEVID_LENGTH = 12
   \<and> \<not> spec_fits (ITG3200_RA_WHO_AM_I, ITG3200_DEVID_BIT, ITG3200_DEVID_LENGTH)
   \<and> \<not> list_all spec_fits descriptors"
  by (simp add: descriptors_def itg_const)

text \<open>
  Claim C6, as the code has it. Every descriptor names a field inside the byte: its most
  significant bit is at most 7 and its width is between 1 and that position plus one; the
  (register, bit) cells of all descriptors are pairwise distinct, so no two fields of a
  register overlap; and position + width \<open>\<le>\<close> 8 holds for every descriptor but the
  device-ID field.
\<close>

theorem C6_fields_fit:
  "list_all fits_byte descriptors
   \<and> distinct (concat (map field_cells descriptors))
   \<and> list_all spec_fits
       (remove1 (ITG3200_RA_WHO_AM_I, ITG3200_DEVID_BIT, ITG3200_DEVID_LENGTH) descriptors)"
  by code_simp

end
